theory Spec2Isabelle
  imports Main "HOL-Library.Multiset"
begin

section \<open>homebrew-sync.py: a shallow embedding\<close>

text \<open>
  The script drives the \<^verbatim>\<open>brew\<close> command line: it upgrades outdated formulae,
  installs the formulae and casks of \<^verbatim>\<open>config.json\<close> that are missing, collects
  caveats and prints a report. The external world (the adapter's answers, the file system,
  the order in which pool futures complete) is a parameter of every function; what the
  script does to the world (mutating adapter calls, log lines, the printed report) is
  recorded in a trace that is passed along with the report under construction.
\<close>

subsection \<open>Python strings\<close>

text \<open>
  Strings are lists of 8-bit characters, read as the code points U+0000 to U+00FF.
  \<^verbatim>\<open>str.splitlines()\<close> breaks at LF, CR, CR LF, VT, FF, FS, GS, RS and NEL (the line
  boundaries U+2028 and U+2029 lie outside the character type) and yields no final empty
  line. \<^verbatim>\<open>str.strip()\<close> removes leading and trailing white space.
\<close>

definition is_linebreak :: "char \<Rightarrow> bool" where
  "is_linebreak c \<longleftrightarrow>
     c \<in> {CHR 0x0A, CHR 0x0B, CHR 0x0C, CHR 0x0D, CHR 0x1C, CHR 0x1D, CHR 0x1E, CHR 0x85}"

fun splitlines_from :: "string \<Rightarrow> string \<Rightarrow> string list" where
  "splitlines_from cur [] = (if cur = [] then [] else [cur])"
| "splitlines_from cur [c] =
     (if is_linebreak c then [cur] else [cur @ [c]])"
| "splitlines_from cur (c # d # cs) =
     (if c = CHR 0x0D \<and> d = CHR 0x0A then cur # splitlines_from [] cs
      else if is_linebreak c then cur # splitlines_from [] (d # cs)
      else splitlines_from (cur @ [c]) (d # cs))"

definition splitlines :: "string \<Rightarrow> string list" where
  "splitlines s = splitlines_from [] s"

definition is_space :: "char \<Rightarrow> bool" where
  "is_space c \<longleftrightarrow>
     c \<in> {CHR 0x09, CHR 0x0A, CHR 0x0B, CHR 0x0C, CHR 0x0D, CHR 0x1C, CHR 0x1D, CHR 0x1E,
          CHR 0x1F, CHR 0x20, CHR 0x85, CHR 0xA0}"

definition strip :: "string \<Rightarrow> string" where
  "strip s = rev (dropWhile is_space (rev (dropWhile is_space s)))"

text \<open>\<^verbatim>\<open>sub in s\<close> on strings: \<open>sub\<close> occurs in \<open>s\<close> as a contiguous block.\<close>

fun starts_with :: "string \<Rightarrow> string \<Rightarrow> bool" where
  "starts_with [] s = True"
| "starts_with (a # sub) [] = False"
| "starts_with (a # sub) (c # s) = (a = c \<and> starts_with sub s)"

fun str_in :: "string \<Rightarrow> string \<Rightarrow> bool" where
  "str_in sub [] = (sub = [])"
| "str_in sub (c # s) = (starts_with sub (c # s) \<or> str_in sub s)"

text \<open>\<^verbatim>\<open>' '.join(xs)\<close>\<close>

fun join :: "string list \<Rightarrow> string" where
  "join [] = []"
| "join [x] = x"
| "join (x # y # ys) = x @ '' '' @ join (y # ys)"

subsection \<open>Exceptions\<close>

text \<open>
  \<open>exn\<close> stands for the instances of subclasses of \<^verbatim>\<open>Exception\<close> that the script
  meets, so every \<^verbatim>\<open>except Exception\<close> clause catches every value of the type.
  \<^verbatim>\<open>sys.exit(n)\<close> is kept apart as \<open>SysExit n\<close>.
\<close>

datatype exn =
    ValueError string
  | AssertionError string
  | CalledProcessError int string
  | OSError string
  | UnicodeDecodeError
  | JSONDecodeError

datatype abort = Raised exn | SysExit int

subsection \<open>The report and the trace\<close>

text \<open>
  The report is the nested dictionary that \<^verbatim>\<open>main\<close> builds; each field is one of its
  leaves, named by its path. A caveat entry is the two-key dictionary built by
  \<^verbatim>\<open>get_caveat\<close>, as an association list in insertion order.
\<close>

type_synonym entry = "(string \<times> string) list"

record report =
  success_install_formula :: "string list"
  success_install_cask :: "string list"
  success_upgrade_formula :: "string list"
  success_cask :: "string list"
  error_install_formula :: "string list"
  error_install_cask :: "string list"
  error_upgrade_formula :: "string list"
  error_cask :: "string list"
  info :: "entry list"

datatype level = INFO | WARNING | ERROR

text \<open>
  \<open>Log l msg\<close> is a call of \<^verbatim>\<open>log_info\<close>, \<^verbatim>\<open>log_success\<close> (both at level INFO),
  \<^verbatim>\<open>log_warning\<close> or \<^verbatim>\<open>log_error\<close> with message \<open>msg\<close> (the emoji and the colours
  of the message are left out); \<open>Live cmd\<close> is a command run with its output
  on the terminal, as \<^verbatim>\<open>run_live\<close> does for every mutating adapter command; \<open>Print r\<close> is the report \<open>r\<close> written to
  standard output by \<^verbatim>\<open>print_result\<close>.
\<close>

datatype event = Log level string | Live string | Print report

record state =
  result :: report
  trace :: "event list"

subsection \<open>The world\<close>

text \<open>
  \<open>capture w cmd\<close> is what \<^verbatim>\<open>run_capture(cmd)\<close> gives in this run: the standard
  output of the command, or the exception raised by \<^verbatim>\<open>subprocess.run\<close>.
  \<open>live w cmd\<close> is the exit status of the command under \<^verbatim>\<open>run_live\<close>, or the
  exception raised. \<open>path_exists\<close> is \<^verbatim>\<open>Path(p).exists()\<close>, \<open>home\<close> is
  \<^verbatim>\<open>Path.home()\<close>, \<open>machine\<close> and \<open>system\<close> are the two \<^verbatim>\<open>platform\<close> queries,
  \<open>which_brew\<close> is \<^verbatim>\<open>shutil.which("brew")\<close>. \<open>config_file\<close> is \<open>None\<close> when
  \<^verbatim>\<open>config.json\<close> does not exist and otherwise what \<^verbatim>\<open>json.load\<close> gives.
  \<open>filter_order\<close> and \<open>caveat_order\<close> are the orders in which the futures of the two
  pools of the run complete, as positions in submission order.
  Within one run a command line has one answer. The configuration is a JSON object whose
  lists hold strings; any other value of a key is \<open>JOther\<close>.
\<close>

datatype jval = JList "string list" | JOther

record world =
  capture :: "string \<Rightarrow> exn + string"
  live :: "string \<Rightarrow> exn + int"
  path_exists :: "string \<Rightarrow> bool"
  home :: string
  machine :: string
  system :: string
  which_brew :: "string option"
  config_file :: "(exn + (string \<rightharpoonup> jval)) option"
  filter_order :: "nat list"
  caveat_order :: "nat list"

subsection \<open>Logging and shell wrappers\<close>

definition log :: "level \<Rightarrow> string \<Rightarrow> state \<Rightarrow> state" where
  "log l msg s = s\<lparr>trace := trace s @ [Log l msg]\<rparr>"

definition log_info :: "string \<Rightarrow> state \<Rightarrow> state" where
  "log_info = log INFO"

definition log_success :: "string \<Rightarrow> state \<Rightarrow> state" where
  "log_success = log INFO"

definition log_error :: "string \<Rightarrow> state \<Rightarrow> state" where
  "log_error = log ERROR"

definition log_warning :: "string \<Rightarrow> state \<Rightarrow> state" where
  "log_warning = log WARNING"

text \<open>
  \<^verbatim>\<open>run_live(cmd, check)\<close>: with \<^verbatim>\<open>check=True\<close> a non-zero exit status raises
  \<^verbatim>\<open>CalledProcessError\<close>.
\<close>

definition run_live :: "world \<Rightarrow> string \<Rightarrow> bool \<Rightarrow> state \<Rightarrow> (exn + int) \<times> state" where
  "run_live w cmd check s =
     (let s' = s\<lparr>trace := trace s @ [Live cmd]\<rparr> in
      case live w cmd of
        Inl e \<Rightarrow> (Inl e, s')
      | Inr rc \<Rightarrow> if check \<and> rc \<noteq> 0 then (Inl (CalledProcessError rc cmd), s')
                  else (Inr rc, s'))"

definition run_capture :: "world \<Rightarrow> string \<Rightarrow> exn + string" where
  "run_capture w cmd = capture w cmd"

subsection \<open>The worker pool\<close>

text \<open>
  The constructor of \<^verbatim>\<open>concurrent.futures.ThreadPoolExecutor\<close> refuses a pool without
  workers. \<^verbatim>\<open>as_completed\<close> yields every submitted future once, in completion order;
  leaving the \<^verbatim>\<open>with\<close> block waits for all workers, so every submitted probe runs.
\<close>

definition ThreadPoolExecutor :: "int \<Rightarrow> exn + int" where
  "ThreadPoolExecutor max_workers =
     (if max_workers \<le> 0 then Inl (ValueError ''max_workers must be greater than 0'')
      else Inr max_workers)"

definition as_completed :: "nat list \<Rightarrow> 'a list \<Rightarrow> 'a list" where
  "as_completed order futures = map (\<lambda>i. futures ! i) order"

definition valid_order :: "nat list \<Rightarrow> nat \<Rightarrow> bool" where
  "valid_order order n \<longleftrightarrow> mset order = mset [0..<n]"

subsection \<open>Caveats\<close>

definition get_caveat :: "world \<Rightarrow> string \<Rightarrow> string \<Rightarrow> bool \<Rightarrow> exn + entry option" where
  "get_caveat w brew name is_cask =
     (let flag = (if is_cask then ''--cask'' else '''') in
      case run_capture w (brew @ '' info '' @ flag @ '' --caveats '' @ name) of
        Inl e \<Rightarrow> Inl e
      | Inr out \<Rightarrow>
          (let caveat = strip out in
           Inr (if caveat \<noteq> []
                then Some [(if is_cask then ''cask'' else ''formula'', name), (''caveat'', caveat)]
                else None)))"

text \<open>The loop over \<^verbatim>\<open>as_completed(futures)\<close>: \<^verbatim>\<open>future.result()\<close> is not guarded.\<close>

fun collect_loop :: "(exn + entry option) list \<Rightarrow> entry list \<Rightarrow> exn + entry list" where
  "collect_loop [] caveats = Inr caveats"
| "collect_loop (future # futures) caveats =
     (case future of
        Inl e \<Rightarrow> Inl e
      | Inr None \<Rightarrow> collect_loop futures caveats
      | Inr (Some res) \<Rightarrow> collect_loop futures (caveats @ [res]))"

definition collect_caveats_parallel ::
  "world \<Rightarrow> nat list \<Rightarrow> string \<Rightarrow> string list \<Rightarrow> string list \<Rightarrow> state \<Rightarrow> (exn + entry list) \<times> state"
where
  "collect_caveats_parallel w order brew formulae casks s =
     (let s1 = log_info ''Collecting caveats in parallel...'' s;
          items = map (\<lambda>name. (name, False)) formulae @ map (\<lambda>name. (name, True)) casks
      in case ThreadPoolExecutor (min 8 (int (length items))) of
           Inl e \<Rightarrow> (Inl e, s1)
         | Inr executor \<Rightarrow>
             (let futures = map (\<lambda>(name, is_cask). get_caveat w brew name is_cask) items
              in (collect_loop (as_completed order futures) [], s1)))"

subsection \<open>Installed casks\<close>

text \<open>\<^verbatim>\<open>any(m() for m in methods)\<close> calls the methods in order and stops at the first
  that is true.\<close>

fun any_of :: "(unit \<Rightarrow> exn + bool) list \<Rightarrow> exn + bool" where
  "any_of [] = Inr False"
| "any_of (m # ms) =
     (case m () of
        Inl e \<Rightarrow> Inl e
      | Inr b \<Rightarrow> if b then Inr True else any_of ms)"

definition is_cask_installed :: "world \<Rightarrow> string \<Rightarrow> string \<Rightarrow> exn + bool" where
  "is_cask_installed w brew name =
     (let methods =
        [\<lambda>_. (case run_capture w (brew @ '' list --cask'') of
                 Inl e \<Rightarrow> Inl e
               | Inr out \<Rightarrow> Inr (name \<in> set (splitlines out))),
         \<lambda>_. (case run_capture w (brew @ '' info --cask '' @ name) of
                 Inl e \<Rightarrow> Inl e
               | Inr out \<Rightarrow> Inr (\<not> str_in ''Not installed'' out)),
         \<lambda>_. Inr (list_ex (path_exists w)
                 [''/Applications/'' @ name @ ''.app'',
                  home w @ ''/Applications/'' @ name @ ''.app''])]
      in any_of methods)"

text \<open>A future of the filter carries its key in the \<^verbatim>\<open>futures\<close> dictionary, the name.\<close>

fun filter_loop ::
  "(string \<times> (exn + bool)) list \<Rightarrow> string list \<Rightarrow> state \<Rightarrow> string list \<times> state" where
  "filter_loop [] to_install s = (to_install, s)"
| "filter_loop ((name, future) # futures) to_install s =
     (case future of
        Inr installed \<Rightarrow>
          if \<not> installed then filter_loop futures (to_install @ [name]) s
          else filter_loop futures to_install s
      | Inl e \<Rightarrow>
          filter_loop futures (to_install @ [name])
            (log_warning (''Failed to check cask: '' @ name) s))"

definition filter_missing_casks_parallel ::
  "world \<Rightarrow> nat list \<Rightarrow> string \<Rightarrow> string list \<Rightarrow> state \<Rightarrow> (exn + string list) \<times> state"
where
  "filter_missing_casks_parallel w order brew casks s =
     (let s1 = log_info ''Checking for installed casks in parallel...'' s
      in case ThreadPoolExecutor (min 8 (int (length casks))) of
           Inl e \<Rightarrow> (Inl e, s1)
         | Inr executor \<Rightarrow>
             (let futures = map (\<lambda>name. (name, is_cask_installed w brew name)) casks;
                  (to_install, s2) = filter_loop (as_completed order futures) [] s1
              in (Inr to_install, s2)))"

subsection \<open>Brew operations\<close>

text \<open>
  Each step mutates the report it is handed. A \<^verbatim>\<open>try\<close> block whose handler is
  \<^verbatim>\<open>except Exception\<close> turns every exception of the call into the handler's branch.
\<close>

definition update_and_upgrade :: "world \<Rightarrow> string \<Rightarrow> state \<Rightarrow> (exn + unit) \<times> state" where
  "update_and_upgrade w brew s =
     (let s1 = log_info ''Updating Homebrew...'' s in
      case run_live w (brew @ '' update'') False s1 of
        (Inl e, s2) \<Rightarrow> (Inl e, s2)
      | (Inr rc, s2) \<Rightarrow>
          (let s3 = log_info ''Checking for outdated formulae...'' s2 in
           case run_capture w (brew @ '' outdated --formula --quiet'') of
             Inl e \<Rightarrow> (Inl e, s3)
           | Inr out \<Rightarrow>
               (let outdated = splitlines out in
                if outdated \<noteq> [] then
                  (let s4 = log_info (''Upgrading: '' @ join outdated) s3 in
                   case run_live w (brew @ '' upgrade '' @ join outdated) True s4 of
                     (Inr rc', s5) \<Rightarrow>
                       (Inr (), s5\<lparr>result := (result s5)\<lparr>success_upgrade_formula :=
                                    success_upgrade_formula (result s5) @ outdated\<rparr>\<rparr>)
                   | (Inl e, s5) \<Rightarrow>
                       (Inr (), log_error ''One or more upgrades failed.''
                                  (s5\<lparr>result := (result s5)\<lparr>error_upgrade_formula :=
                                    error_upgrade_formula (result s5) @ outdated\<rparr>\<rparr>)))
                else (Inr (), log_info ''No formulae to upgrade.'' s3))))"

definition install_formulae ::
  "world \<Rightarrow> string \<Rightarrow> string list \<Rightarrow> state \<Rightarrow> (exn + unit) \<times> state" where
  "install_formulae w brew formulae s =
     (case run_capture w (brew @ '' list --formula'') of
        Inl e \<Rightarrow> (Inl e, s)
      | Inr out \<Rightarrow>
          (let installed = set (splitlines out);
               to_install = filter (\<lambda>name. name \<notin> installed) formulae
           in if to_install \<noteq> [] then
                (let s1 = log_info (''Installing formulae: '' @ join to_install) s in
                 case run_live w (brew @ '' install '' @ join to_install) True s1 of
                   (Inr rc, s2) \<Rightarrow>
                     (Inr (), s2\<lparr>result := (result s2)\<lparr>success_install_formula :=
                                  success_install_formula (result s2) @ to_install\<rparr>\<rparr>)
                 | (Inl e, s2) \<Rightarrow>
                     (Inr (), log_error ''Failed to install one or more formulae.''
                                (s2\<lparr>result := (result s2)\<lparr>error_install_formula :=
                                  error_install_formula (result s2) @ to_install\<rparr>\<rparr>)))
              else (Inr (), s)))"

definition install_casks ::
  "world \<Rightarrow> nat list \<Rightarrow> string \<Rightarrow> string list \<Rightarrow> state \<Rightarrow> (exn + unit) \<times> state" where
  "install_casks w order brew casks s =
     (case filter_missing_casks_parallel w order brew casks s of
        (Inl e, s0) \<Rightarrow> (Inl e, s0)
      | (Inr to_install, s0) \<Rightarrow>
          if to_install \<noteq> [] then
            (let s1 = log_info (''Installing casks: '' @ join to_install) s0 in
             case run_live w (brew @ '' install --cask '' @ join to_install) True s1 of
               (Inr rc, s2) \<Rightarrow>
                 (Inr (), s2\<lparr>result := (result s2)\<lparr>success_install_cask :=
                              success_install_cask (result s2) @ to_install\<rparr>\<rparr>)
             | (Inl e, s2) \<Rightarrow>
                 (Inr (), log_error ''Failed to install one or more casks.''
                            (s2\<lparr>result := (result s2)\<lparr>error_install_cask :=
                              error_install_cask (result s2) @ to_install\<rparr>\<rparr>)))
          else (Inr (), s0))"

subsection \<open>Final output\<close>

text \<open>
  The two assignments make the top-level \<^verbatim>\<open>cask\<close> keys refer to the lists under
  \<^verbatim>\<open>install\<close>; the report is then serialised and printed (the empty line printed
  before it is not recorded).
\<close>

definition print_result :: "state \<Rightarrow> state" where
  "print_result s =
     (let r1 = (result s)\<lparr>success_cask := success_install_cask (result s)\<rparr>;
          r2 = r1\<lparr>error_cask := error_install_cask r1\<rparr>;
          s1 = log_info ''Final result:'' (s\<lparr>result := r2\<rparr>)
      in s1\<lparr>trace := trace s1 @ [Print r2]\<rparr>)"

subsection \<open>Start-up\<close>

definition truthy :: "string option \<Rightarrow> bool" where
  "truthy x = (case x of None \<Rightarrow> False | Some p \<Rightarrow> p \<noteq> [])"

definition brew_path :: "world \<Rightarrow> state \<Rightarrow> (abort + string) \<times> state" where
  "brew_path w s =
     (let arch = machine w;
          brew = (if arch = ''arm64'' then Some ''/opt/homebrew/bin/brew''
                  else if arch = ''x86_64'' then Some ''/usr/local/bin/brew''
                  else which_brew w)
      in case (if truthy brew then brew else None) of
           Some b \<Rightarrow>
             if path_exists w b then (Inr b, s)
             else (case (if truthy (which_brew w) then which_brew w else None) of
                     Some fallback \<Rightarrow> (Inr fallback, s)
                   | None \<Rightarrow>
                       (Inl (SysExit 1), log_error ''Homebrew not found in expected locations.'' s))
         | None \<Rightarrow>
             (case (if truthy (which_brew w) then which_brew w else None) of
                Some fallback \<Rightarrow> (Inr fallback, s)
              | None \<Rightarrow>
                  (Inl (SysExit 1), log_error ''Homebrew not found in expected locations.'' s)))"

definition install_script_cmd :: string where
  "install_script_cmd =
     ''/bin/bash -c '' @ [CHR 0x22] @
     ''$(curl -fsSL https://raw.githubusercontent.com/Homebrew/install/HEAD/install.sh)'' @
     [CHR 0x22]"

definition install_homebrew :: "world \<Rightarrow> state \<Rightarrow> (abort + string) \<times> state" where
  "install_homebrew w s =
     (let s1 = log_info ''Installing Homebrew...'' s in
      case run_live w install_script_cmd True s1 of
        (Inl e, s2) \<Rightarrow> (Inl (Raised e), s2)
      | (Inr rc, s2) \<Rightarrow> brew_path w s2)"

definition parse_config :: "world \<Rightarrow> state \<Rightarrow> (abort + (string \<rightharpoonup> jval)) \<times> state" where
  "parse_config w s =
     (case config_file w of
        None \<Rightarrow> (Inl (SysExit 1), log_error ''Missing config file: config.json'' s)
      | Some (Inl e) \<Rightarrow> (Inl (Raised e), s)
      | Some (Inr data) \<Rightarrow> (Inr data, s))"

text \<open>\<^verbatim>\<open>data.get(key, [])\<close>\<close>

definition get_or_empty :: "(string \<rightharpoonup> jval) \<Rightarrow> string \<Rightarrow> jval" where
  "get_or_empty data key = (case data key of None \<Rightarrow> JList [] | Some v \<Rightarrow> v)"

definition assert_lists :: "(string \<rightharpoonup> jval) \<Rightarrow> string \<Rightarrow> abort + unit" where
  "assert_lists data key =
     (case get_or_empty data key of
        JList xs \<Rightarrow> Inr ()
      | JOther \<Rightarrow> Inl (Raised (AssertionError (key @ '' must be a list in config.json''))))"

definition require_macos :: "world \<Rightarrow> state \<Rightarrow> (abort + unit) \<times> state" where
  "require_macos w s =
     (if system w \<noteq> ''Darwin''
      then (Inl (SysExit 1), log_error ''Error: This script can only be run on macOS.'' s)
      else (Inr (), s))"

subsection \<open>Orchestration\<close>

definition empty_report :: report where
  "empty_report =
     \<lparr>success_install_formula = [], success_install_cask = [], success_upgrade_formula = [],
      success_cask = [], error_install_formula = [], error_install_cask = [],
      error_upgrade_formula = [], error_cask = [], info = []\<rparr>"

definition initial :: state where
  "initial = \<lparr>result = empty_report, trace = []\<rparr>"

text \<open>Sequencing of calls that may raise: an exception ends the sequence.\<close>

definition bind ::
  "('e + 'a) \<times> state \<Rightarrow> ('a \<Rightarrow> state \<Rightarrow> ('e + 'b) \<times> state) \<Rightarrow> ('e + 'b) \<times> state" where
  "bind m f = (case m of (Inl e, s) \<Rightarrow> (Inl e, s) | (Inr x, s) \<Rightarrow> f x s)"

definition uncaught :: "(exn + 'a) \<times> state \<Rightarrow> (abort + 'a) \<times> state" where
  "uncaught m = (case m of (Inl e, s) \<Rightarrow> (Inl (Raised e), s) | (Inr x, s) \<Rightarrow> (Inr x, s))"

fun list_of :: "jval \<Rightarrow> string list" where
  "list_of (JList xs) = xs"
| "list_of JOther = []"

text \<open>
  The steps of \<^verbatim>\<open>main\<close> after the configuration is read and the tool is found.
  (The assignment to \<^verbatim>\<open>os.environ["PATH"]\<close> is not modelled.)
\<close>

definition sync ::
  "world \<Rightarrow> string \<Rightarrow> string list \<Rightarrow> string list \<Rightarrow> state \<Rightarrow> (abort + unit) \<times> state" where
  "sync w brew formulae casks s =
     bind (uncaught (update_and_upgrade w brew s)) (\<lambda>_ s1.
     bind (uncaught (install_formulae w brew formulae s1)) (\<lambda>_ s2.
     bind (uncaught (install_casks w (filter_order w) brew casks s2)) (\<lambda>_ s3.
     bind (uncaught (collect_caveats_parallel w (caveat_order w) brew formulae casks s3))
       (\<lambda>caveats s4.
          (Inr (), log_success ''Done!''
                     (print_result (s4\<lparr>result := (result s4)\<lparr>info := caveats\<rparr>\<rparr>)))))))"

definition main :: "world \<Rightarrow> (abort + unit) \<times> state" where
  "main w =
     bind (require_macos w initial) (\<lambda>_ s1.
     bind (parse_config w (log_info ''Brew Sync Starting...'' s1)) (\<lambda>config s2.
     bind (assert_lists config ''formula'', s2) (\<lambda>_ s3.
     bind (assert_lists config ''cask'', s3) (\<lambda>_ s4.
       (let formulae = list_of (get_or_empty config ''formula'');
            casks = list_of (get_or_empty config ''cask'')
        in bind (brew_path w (s4\<lparr>result := empty_report\<rparr>)) (\<lambda>brew s5.
           bind (if brew = [] then install_homebrew w s5 else (Inr brew, s5)) (\<lambda>brew' s6.
             sync w brew' formulae casks s6)))))))"

text \<open>The exit status of the process: 0 when \<^verbatim>\<open>main\<close> returns, the argument of
  \<^verbatim>\<open>sys.exit\<close>, and 1 when an exception reaches the top level.\<close>

fun exit_status :: "abort + unit \<Rightarrow> int" where
  "exit_status (Inr u) = 0"
| "exit_status (Inl (SysExit n)) = n"
| "exit_status (Inl (Raised e)) = 1"

definition printed :: "event list \<Rightarrow> report list" where
  "printed t = concat (map (\<lambda>ev. case ev of Print r \<Rightarrow> [r] | _ \<Rightarrow> []) t)"

definition live_calls :: "event list \<Rightarrow> string list" where
  "live_calls t = concat (map (\<lambda>ev. case ev of Live c \<Rightarrow> [c] | _ \<Rightarrow> []) t)"

text \<open>The batched call \<open>cmd\<close> succeeds: it ends with exit status 0.\<close>

definition succeeds :: "world \<Rightarrow> string \<Rightarrow> bool" where
  "succeeds w cmd \<longleftrightarrow> live w cmd = Inr 0"

subsection \<open>An example world\<close>

text \<open>
  A machine on which \<^verbatim>\<open>git\<close> and the cask \<^verbatim>\<open>firefox\<close> are installed, the
  installation of \<^verbatim>\<open>wget\<close> fails, \<^verbatim>\<open>brew\<close> is found on the search path, and the queries about the cask \<^verbatim>\<open>vlc\<close> raise.
\<close>

definition example_world :: world where
  "example_world =
     \<lparr>capture = (\<lambda>cmd.
        if cmd = ''brew outdated --formula --quiet'' then Inr (''openssl'' @ [CHR 0x0A])
        else if cmd = ''brew info  --caveats git'' then Inr ''Caveat: ...''
        else if cmd = ''brew info  --caveats wget'' then Inr ''''
        else if cmd = ''brew list --formula''
          then Inr (''git'' @ [CHR 0x0A] @ ''openssl'' @ [CHR 0x0A])
        else if cmd = ''brew list --cask'' then Inr (''firefox'' @ [CHR 0x0A])
        else if cmd = ''brew info --cask iterm2'' then Inr ''iterm2: 3.5 Not installed''
        else if cmd = ''brew info --cask firefox'' then Inr ''firefox: 130.0''
        else if cmd = ''brew info --cask vlc'' then Inl (OSError ''fork failed'')
        else if cmd = ''brew info --cask --caveats vlc'' then Inl UnicodeDecodeError
        else Inr ''''),
      live = (\<lambda>cmd. if cmd = ''brew install wget'' then Inr 1 else Inr 0),
      path_exists = (\<lambda>p. False),
      home = ''/Users/me'',
      machine = ''arm64'',
      system = ''Darwin'',
      which_brew = Some ''brew'',
      config_file = Some (Inr [''formula'' \<mapsto> JList [''git'', ''wget''],
                               ''cask'' \<mapsto> JList [''iterm2'', ''firefox'']]),
      filter_order = [1, 0],
      caveat_order = [3, 0, 2, 1]\<rparr>"

text \<open>The same machine with a configuration that lists one formula and no cask.\<close>

definition formula_only_world :: world where
  "formula_only_world =
     example_world\<lparr>config_file := Some (Inr [''formula'' \<mapsto> JList [''git'']])\<rparr>"

text \<open>
  A second machine: two formulae are outdated, only \<^verbatim>\<open>git\<close> is installed, installing
  \<^verbatim>\<open>wget curl\<close> fails. Of the casks, \<^verbatim>\<open>firefox\<close> is known by the listing only,
  \<^verbatim>\<open>slack\<close> by its info text only, \<^verbatim>\<open>zoom\<close> by its bundle in the user's
  \<^verbatim>\<open>Applications\<close> directory only, \<^verbatim>\<open>iterm2\<close> by nothing; the bundle of \<^verbatim>\<open>vlc\<close>
  exists but both queries about it raise. Caveat texts come with surrounding white space.
\<close>

definition mixed_world :: world where
  "mixed_world =
     example_world
       \<lparr>capture := (\<lambda>cmd.
          if cmd = ''brew outdated --formula --quiet''
            then Inr (''openssl'' @ [CHR 0x0A] @ ''node'' @ [CHR 0x0A])
          else if cmd = ''brew list --formula'' then Inr (''git'' @ [CHR 0x0A])
          else if cmd = ''brew list --cask'' then Inr (''firefox'' @ [CHR 0x0A])
          else if cmd = ''brew info --cask firefox'' then Inr ''firefox: Not installed''
          else if cmd = ''brew info --cask slack'' then Inr ''slack: 4.0''
          else if cmd = ''brew info --cask zoom'' then Inr ''zoom: Not installed''
          else if cmd = ''brew info --cask iterm2'' then Inr ''iterm2: Not installed''
          else if cmd = ''brew info --cask vlc'' then Inl (OSError ''fork failed'')
          else if cmd = ''brew info  --caveats git''
            then Inr ([CHR 0x0A] @ ''  Caveat: ...'' @ [CHR 0x0A])
          else if cmd = ''brew info  --caveats wget'' then Inr ('' '' @ [CHR 0x0A])
          else if cmd = ''brew info --cask --caveats iterm2''
            then Inr (''Needs Rosetta'' @ [CHR 0x0A])
          else if cmd = ''brew info --cask --caveats vlc'' then Inl UnicodeDecodeError
          else Inr []),
        live := (\<lambda>cmd. if cmd = ''brew install wget curl'' then Inr 1 else Inr 0),
        path_exists := (\<lambda>p. p = ''/Users/me/Applications/zoom.app'' \<or>
                              p = ''/Applications/vlc.app'')\<rparr>"

section \<open>Properties\<close>

subsection \<open>The string functions on examples\<close>

lemma splitlines_examples:
  "splitlines [] = []"
  "splitlines [CHR 0x0A] = [[]]"
  "splitlines (''a'' @ [CHR 0x0A, CHR 0x0A] @ ''b'' @ [CHR 0x0D, CHR 0x0A] @ ''c'' @ [CHR 0x0B] @
     ''d'' @ [CHR 0x1C] @ ''e'' @ [CHR 0x85] @ ''f'' @ [CHR 0x0A]) =
     [''a'', [], ''b'', ''c'', ''d'', ''e'', ''f'']"
  "splitlines ''git'' = [''git'']"
  by (simp_all add: splitlines_def is_linebreak_def)

lemma strip_examples:
  "strip ([CHR 0x20, CHR 0x09, CHR 0x1F, CHR 0xA0, CHR 0x85] @ ''x y'' @ [CHR 0x1C, CHR 0x0A]) = ''x y''"
  "strip [CHR 0x20, CHR 0x0A] = []"
  by (simp_all add: strip_def is_space_def)

lemma join_examples:
  "join [] = []" "join [''wget''] = ''wget''" "join [''wget'', ''curl''] = ''wget curl''"
  by simp_all

subsection \<open>The pool and the two loops\<close>


lemma as_completed_mset:
  assumes "valid_order order (length futures)"
  shows "mset (as_completed order futures) = mset futures"
proof -
  have "mset (as_completed order futures) = image_mset (\<lambda>i. futures ! i) (mset order)"
    by (simp add: as_completed_def)
  also have "\<dots> = image_mset (\<lambda>i. futures ! i) (mset [0..<length futures])"
    using assms by (simp add: valid_order_def)
  also have "\<dots> = mset (map (\<lambda>i. futures ! i) [0..<length futures])"
    by simp
  also have "\<dots> = mset futures"
    by (simp add: map_nth)
  finally show ?thesis .
qed

lemma as_completed_set:
  "valid_order order (length futures) \<Longrightarrow> set (as_completed order futures) = set futures"
  using as_completed_mset [of order futures] by (metis set_mset_mset)

lemma pool_nonempty:
  "0 < n \<Longrightarrow> ThreadPoolExecutor (min 8 (int n)) = Inr (min 8 (int n))"
  by (simp add: ThreadPoolExecutor_def)

lemma pool_empty:
  "ThreadPoolExecutor (min 8 (int 0)) = Inl (ValueError ''max_workers must be greater than 0'')"
  by (simp add: ThreadPoolExecutor_def)

lemma collect_loop_raises:
  "Inl e \<in> set futures \<Longrightarrow> \<exists>e'. collect_loop futures caveats = Inl e'"
  by (induction futures caveats rule: collect_loop.induct) (auto split: sum.splits option.splits)

lemma collect_loop_returns:
  "\<forall>f \<in> set futures. \<not> isl f \<Longrightarrow>
   collect_loop futures caveats = Inr (caveats @ concat (map (\<lambda>f. case f of Inr (Some res) \<Rightarrow> [res] | _ \<Rightarrow> []) futures))"
  by (induction futures caveats rule: collect_loop.induct) (auto split: sum.splits option.splits)

lemma filter_loop_to_install:
  "fst (filter_loop futures to_install s) =
     to_install @ map fst (filter (\<lambda>(name, future). future \<noteq> Inr True) futures)"
  by (induction futures to_install s rule: filter_loop.induct) (auto split: sum.splits)

lemma filter_loop_trace:
  "trace (snd (filter_loop futures to_install s)) =
     trace s @ map (\<lambda>(name, future). Log WARNING (''Failed to check cask: '' @ name))
                 (filter (\<lambda>(name, future). isl future) futures)"
  by (induction futures to_install s rule: filter_loop.induct)
     (auto split: sum.splits simp: log_warning_def log_def)

lemma filter_loop_result:
  "result (snd (filter_loop futures to_install s)) = result s"
  by (induction futures to_install s rule: filter_loop.induct)
     (auto split: sum.splits simp: log_warning_def log_def)

subsection \<open>Empty batches\<close>

text \<open>
  C1. The claim is that both batch runners, given no item, start no pool and return an
  empty result. The code does not: with no item \<^verbatim>\<open>min(8, len(...))\<close> is 0, and the
  constructor of the pool raises \<^verbatim>\<open>ValueError\<close>, which neither runner catches. This
  holds in every world, for every completion order and every starting state.
\<close>

theorem empty_batch_raises:
  "fst (filter_missing_casks_parallel w order brew [] s) =
     Inl (ValueError ''max_workers must be greater than 0'') \<and>
   fst (collect_caveats_parallel w order' brew [] [] s) =
     Inl (ValueError ''max_workers must be greater than 0'')"
  by (simp add: filter_missing_casks_parallel_def collect_caveats_parallel_def
      ThreadPoolExecutor_def)

subsection \<open>The missing-cask filter on a batch that is not empty\<close>

lemma filter_missing_unfold:
  assumes "casks \<noteq> []"
  shows "filter_missing_casks_parallel w order brew casks s =
     (Inr (fst (filter_loop (as_completed order (map (\<lambda>name. (name, is_cask_installed w brew name)) casks)) []
                 (log_info ''Checking for installed casks in parallel...'' s))),
      snd (filter_loop (as_completed order (map (\<lambda>name. (name, is_cask_installed w brew name)) casks)) []
                 (log_info ''Checking for installed casks in parallel...'' s)))"
proof -
  have "0 < length casks" using assms by simp
  then show ?thesis
    by (simp add: filter_missing_casks_parallel_def pool_nonempty Let_def split: prod.splits)
qed

lemma filter_missing_to_install:
  assumes "casks \<noteq> []" and "valid_order order (length casks)"
  shows "\<exists>to_install. fst (filter_missing_casks_parallel w order brew casks s) = Inr to_install \<and>
           mset to_install = mset (filter (\<lambda>name. is_cask_installed w brew name \<noteq> Inr True) casks)"
proof -
  let ?futures = "map (\<lambda>name. (name, is_cask_installed w brew name)) casks"
  let ?P = "\<lambda>(name, future). future \<noteq> Inr True"
  let ?ti = "map fst (filter ?P (as_completed order ?futures))"
  have ord: "valid_order order (length ?futures)" using assms(2) by simp
  have "mset ?ti = image_mset fst (filter_mset ?P (mset (as_completed order ?futures)))"
    by simp
  also have "\<dots> = image_mset fst (filter_mset ?P (mset ?futures))"
    by (simp only: as_completed_mset [OF ord])
  also have "\<dots> = mset (map fst (filter ?P ?futures))"
    by simp
  also have "map fst (filter ?P ?futures) =
               filter (\<lambda>name. is_cask_installed w brew name \<noteq> Inr True) casks"
    by (induction casks) auto
  finally have "mset ?ti = mset (filter (\<lambda>name. is_cask_installed w brew name \<noteq> Inr True) casks)" .
  moreover have "fst (filter_missing_casks_parallel w order brew casks s) = Inr ?ti"
    by (simp add: filter_missing_unfold [OF assms(1)] filter_loop_to_install)
  ultimately show ?thesis by blast
qed

lemma filter_missing_trace:
  assumes "casks \<noteq> []"
  shows "trace (snd (filter_missing_casks_parallel w order brew casks s)) =
     trace s @ Log INFO ''Checking for installed casks in parallel...'' #
       map (\<lambda>(name, future). Log WARNING (''Failed to check cask: '' @ name))
         (filter (\<lambda>(name, future). isl future)
            (as_completed order (map (\<lambda>name. (name, is_cask_installed w brew name)) casks)))"
  by (simp add: filter_missing_unfold [OF assms] filter_loop_trace log_info_def log_def)

lemma filter_missing_result:
  "result (snd (filter_missing_casks_parallel w order brew casks s)) = result s"
proof (cases "casks = []")
  case True
  then show ?thesis
    by (simp add: filter_missing_casks_parallel_def ThreadPoolExecutor_def log_info_def log_def)
next
  case False
  then show ?thesis
    by (simp add: filter_missing_unfold filter_loop_result log_info_def log_def)
qed

subsection \<open>Substrings\<close>

lemma starts_with_iff: "starts_with sub s \<longleftrightarrow> (\<exists>post. s = sub @ post)"
  by (induction sub s rule: starts_with.induct) auto

lemma str_in_iff: "str_in sub s \<longleftrightarrow> (\<exists>pre post. s = pre @ sub @ post)"
proof (induction s)
  case Nil
  then show ?case by simp
next
  case (Cons c s)
  show ?case
  proof
    assume "str_in sub (c # s)"
    then consider "starts_with sub (c # s)" | "str_in sub s" by auto
    then show "\<exists>pre post. c # s = pre @ sub @ post"
    proof cases
      case 1
      then obtain post where "c # s = [] @ sub @ post"
        by (auto simp: starts_with_iff)
      then show ?thesis by blast
    next
      case 2
      then obtain pre post where "s = pre @ sub @ post"
        using Cons.IH by blast
      then have "c # s = (c # pre) @ sub @ post" by simp
      then show ?thesis by blast
    qed
  next
    assume "\<exists>pre post. c # s = pre @ sub @ post"
    then obtain pre post where eq: "c # s = pre @ sub @ post" by blast
    show "str_in sub (c # s)"
    proof (cases pre)
      case Nil
      with eq have "starts_with sub (c # s)"
        by (auto simp: starts_with_iff)
      then show ?thesis by simp
    next
      case (Cons a pre')
      with eq have "s = pre' @ sub @ post" by simp
      then have "str_in sub s" using Cons.IH by blast
      then show ?thesis by simp
    qed
  qed
qed

subsection \<open>A failing probe\<close>

text \<open>
  C2. The claim is that a probe that raises leaves its siblings' outcomes in place and
  that the failure is caught and logged, in both batch runners. The missing-cask filter
  does so, in its \<^verbatim>\<open>except\<close> branch. The caveat collector does not:
  its loop calls \<^verbatim>\<open>future.result()\<close> outside any \<^verbatim>\<open>try\<close>, so whenever the probe of
  one configured formula or cask raises, in whatever order the probes complete, the
  collector itself raises, returns no caveat at all, and logs nothing but its opening
  line.
\<close>

theorem caveat_probe_failure_propagates:
  assumes "valid_order order (length formulae + length casks)"
    and "(name \<in> set formulae \<and> \<not> is_cask) \<or> (name \<in> set casks \<and> is_cask)"
    and "get_caveat w brew name is_cask = Inl e"
  shows "\<exists>e'. collect_caveats_parallel w order brew formulae casks s =
           (Inl e', log_info ''Collecting caveats in parallel...'' s)"
proof -
  let ?items = "map (\<lambda>name. (name, False)) formulae @ map (\<lambda>name. (name, True)) casks"
  let ?futures = "map (\<lambda>(name, is_cask). get_caveat w brew name is_cask) ?items"
  have item: "(name, is_cask) \<in> set ?items"
    using assms(2) by auto
  then have "0 < length ?items"
    by (cases ?items) simp_all
  then have pool: "ThreadPoolExecutor (min 8 (int (length ?items))) = Inr (min 8 (int (length ?items)))"
    by (rule pool_nonempty)
  have "valid_order order (length ?futures)"
    using assms(1) by simp
  then have "set (as_completed order ?futures) = set ?futures"
    by (rule as_completed_set)
  moreover have "Inl e \<in> set ?futures"
    using item assms(3) by force
  ultimately obtain e' where "collect_loop (as_completed order ?futures) [] = Inl e'"
    using collect_loop_raises by blast
  then show ?thesis
    using pool by (simp add: collect_caveats_parallel_def Let_def)
qed

theorem caveat_probe_failure_propagates_witness:
  "valid_order [1, 0, 2] (length [''git'', ''wget''] + length [''vlc'']) \<and>
   get_caveat example_world ''brew'' ''vlc'' True = Inl UnicodeDecodeError \<and>
   (\<exists>e'. collect_caveats_parallel example_world [1, 0, 2] ''brew'' [''git'', ''wget''] [''vlc''] initial =
           (Inl e', log_info ''Collecting caveats in parallel...'' initial))"
  using caveat_probe_failure_propagates [of "[1, 0, 2]" "[''git'', ''wget'']" "[''vlc'']" "''vlc''" True
      example_world "''brew''" UnicodeDecodeError initial]
  by (simp add: valid_order_def get_caveat_def run_capture_def example_world_def)

subsection \<open>The installed-check\<close>

lemma is_cask_installed_signals:
  assumes "run_capture w (brew @ '' list --cask'') = Inr listing"
    and "run_capture w (brew @ '' info --cask '' @ name) = Inr info_text"
  shows "is_cask_installed w brew name =
           Inr (name \<in> set (splitlines listing) \<or>
                \<not> str_in ''Not installed'' info_text \<or>
                path_exists w (''/Applications/'' @ name @ ''.app'') \<or>
                path_exists w (home w @ ''/Applications/'' @ name @ ''.app''))"
  using assms by (simp add: is_cask_installed_def)

lemma installed_cask_not_in_to_install:
  assumes "valid_order order (length casks)" and "name \<in> set casks"
    and "is_cask_installed w brew name = Inr True"
  shows "\<exists>to_install. fst (filter_missing_casks_parallel w order brew casks s) = Inr to_install \<and>
           name \<notin> set to_install"
proof -
  from assms(2) have ne: "casks \<noteq> []" by auto
  from filter_missing_to_install [OF ne assms(1)] obtain to_install where
    ti: "fst (filter_missing_casks_parallel w order brew casks s) = Inr to_install"
    and ms: "mset to_install = mset (filter (\<lambda>name. is_cask_installed w brew name \<noteq> Inr True) casks)"
    by blast
  from ms have "set to_install = set (filter (\<lambda>name. is_cask_installed w brew name \<noteq> Inr True) casks)"
    by (metis set_mset_mset)
  with assms(3) have "name \<notin> set to_install" by simp
  with ti show ?thesis by blast
qed




lemma mixed_world_filter:
  "filter_missing_casks_parallel mixed_world [4, 2, 0, 3, 1] ''brew''
      [''firefox'', ''slack'', ''zoom'', ''iterm2'', ''vlc''] initial =
     (Inr [''vlc'', ''iterm2''],
      initial\<lparr>trace := [Log INFO ''Checking for installed casks in parallel...'',
                         Log WARNING ''Failed to check cask: vlc'']\<rparr>)"
  by (simp add: filter_missing_casks_parallel_def ThreadPoolExecutor_def as_completed_def
      is_cask_installed_def run_capture_def mixed_world_def example_world_def
      splitlines_def is_linebreak_def log_info_def log_warning_def log_def initial_def)




text \<open>
  C4. A cask of the batch whose installed-check raises is in the list returned by the
  missing-cask filter, as often as it was submitted, and the filter logs the warning
  \<^verbatim>\<open>Failed to check cask: <name>\<close> while it runs.
\<close>

theorem failed_probe_keeps_cask_and_warns:
  assumes "valid_order order (length casks)" and "name \<in> set casks"
    and "is_cask_installed w brew name = Inl e"
  shows "\<exists>to_install s'.
           filter_missing_casks_parallel w order brew casks s = (Inr to_install, s') \<and>
           count_list to_install name = count_list casks name \<and>
           name \<in> set to_install \<and>
           (\<exists>added. trace s' = trace s @ added \<and>
              Log WARNING (''Failed to check cask: '' @ name) \<in> set added)"
proof -
  let ?futures = "map (\<lambda>name. (name, is_cask_installed w brew name)) casks"
  from assms(2) have ne: "casks \<noteq> []" by auto
  from filter_missing_to_install [OF ne assms(1)] obtain to_install where
    ti: "fst (filter_missing_casks_parallel w order brew casks s) = Inr to_install"
    and ms: "mset to_install = mset (filter (\<lambda>name. is_cask_installed w brew name \<noteq> Inr True) casks)"
    by blast
  have "count (mset to_install) name = count (mset casks) name"
    using ms assms(3) by simp
  then have cnt: "count_list to_install name = count_list casks name"
    by (simp add: count_mset)
  from ms have "set to_install = set (filter (\<lambda>name. is_cask_installed w brew name \<noteq> Inr True) casks)"
    by (metis set_mset_mset)
  then have mem: "name \<in> set to_install"
    using assms(2,3) by simp
  have ord: "valid_order order (length ?futures)" using assms(1) by simp
  have "(name, Inl e) \<in> set ?futures"
    using assms(2,3) by force
  then have "(name, Inl e) \<in> set (as_completed order ?futures)"
    by (simp only: as_completed_set [OF ord])
  then have "Log WARNING (''Failed to check cask: '' @ name) \<in>
      set (Log INFO ''Checking for installed casks in parallel...'' #
       map (\<lambda>(name, future). Log WARNING (''Failed to check cask: '' @ name))
         (filter (\<lambda>(name, future). isl future) (as_completed order ?futures)))"
    by force
  then have "\<exists>added. trace (snd (filter_missing_casks_parallel w order brew casks s)) = trace s @ added \<and>
              Log WARNING (''Failed to check cask: '' @ name) \<in> set added"
    unfolding filter_missing_trace [OF ne] by blast
  with ti cnt mem show ?thesis
    by (metis prod.collapse)
qed

theorem failed_probe_keeps_cask_and_warns_witness:
  "valid_order [1, 0] (length [''iterm2'', ''vlc'']) \<and>
   is_cask_installed example_world ''brew'' ''vlc'' = Inl (OSError ''fork failed'') \<and>
   (\<exists>to_install s'.
      filter_missing_casks_parallel example_world [1, 0] ''brew'' [''iterm2'', ''vlc''] initial =
        (Inr to_install, s') \<and>
      count_list to_install ''vlc'' = count_list [''iterm2'', ''vlc''] ''vlc'' \<and>
      ''vlc'' \<in> set to_install \<and>
      (\<exists>added. trace s' = trace initial @ added \<and>
         Log WARNING (''Failed to check cask: '' @ ''vlc'') \<in> set added))"
proof -
  have order: "valid_order [1, 0] (length [''iterm2'', ''vlc''])"
    by (simp add: valid_order_def)
  have probe: "is_cask_installed example_world ''brew'' ''vlc'' = Inl (OSError ''fork failed'')"
    by (simp add: is_cask_installed_def run_capture_def example_world_def splitlines_def
        is_linebreak_def)
  show ?thesis
    using order probe failed_probe_keeps_cask_and_warns [OF order _ probe, of initial]
    by simp
qed

text \<open>
  C5. The claim is one outcome per submitted item for every batch size, zero included.
  For a batch that is not empty the missing-cask filter accounts for every cask
  (\<open>filter_missing_to_install\<close>). For the empty batch it produces no list of outcomes:
  the pool constructor raises, and so does the cask step that called the filter.
\<close>

theorem no_outcomes_for_empty_batch:
  "(\<nexists>outcomes s'. filter_missing_casks_parallel w order brew [] s = (Inr outcomes, s')) \<and>
   install_casks w order brew [] s =
     (Inl (ValueError ''max_workers must be greater than 0''),
      log_info ''Checking for installed casks in parallel...'' s)"
  by (simp add: install_casks_def filter_missing_casks_parallel_def ThreadPoolExecutor_def)

subsection \<open>The three mutating steps\<close>

lemma live_calls_append: "live_calls (t @ u) = live_calls t @ live_calls u"
  by (simp add: live_calls_def)

lemma live_calls_simps:
  "live_calls [] = []"
  "live_calls (Log l msg # t) = live_calls t"
  "live_calls (Live cmd # t) = cmd # live_calls t"
  "live_calls (Print r # t) = live_calls t"
  by (simp_all add: live_calls_def)

lemma printed_append: "printed (t @ u) = printed t @ printed u"
  by (simp add: printed_def)

lemma printed_simps:
  "printed [] = []"
  "printed (Log l msg # t) = printed t"
  "printed (Live cmd # t) = printed t"
  "printed (Print r # t) = r # printed t"
  by (simp_all add: printed_def)

lemma run_live_checked:
  "run_live w cmd True s =
     ((if succeeds w cmd then Inr 0
       else case live w cmd of Inl e \<Rightarrow> Inl e | Inr rc \<Rightarrow> Inl (CalledProcessError rc cmd)),
      s\<lparr>trace := trace s @ [Live cmd]\<rparr>)"
  by (simp add: run_live_def succeeds_def Let_def split: sum.splits)

lemma run_live_unchecked:
  "run_live w cmd False s = (live w cmd, s\<lparr>trace := trace s @ [Live cmd]\<rparr>)"
  by (simp add: run_live_def Let_def split: sum.splits)

lemma upgrade_step:
  assumes "live w (brew @ '' update'') = Inr rc"
    and "run_capture w (brew @ '' outdated --formula --quiet'') = Inr out"
    and "outdated = splitlines out" and "outdated \<noteq> []"
  shows "update_and_upgrade w brew s =
     (Inr (),
      if succeeds w (brew @ '' upgrade '' @ join outdated)
      then s\<lparr>result := (result s)\<lparr>success_upgrade_formula :=
                        success_upgrade_formula (result s) @ outdated\<rparr>,
            trace := trace s @
              [Log INFO ''Updating Homebrew...'', Live (brew @ '' update''),
               Log INFO ''Checking for outdated formulae...'',
               Log INFO (''Upgrading: '' @ join outdated),
               Live (brew @ '' upgrade '' @ join outdated)]\<rparr>
      else s\<lparr>result := (result s)\<lparr>error_upgrade_formula :=
                        error_upgrade_formula (result s) @ outdated\<rparr>,
            trace := trace s @
              [Log INFO ''Updating Homebrew...'', Live (brew @ '' update''),
               Log INFO ''Checking for outdated formulae...'',
               Log INFO (''Upgrading: '' @ join outdated),
               Live (brew @ '' upgrade '' @ join outdated),
               Log ERROR ''One or more upgrades failed.'']\<rparr>)"
  using assms
  by (simp add: update_and_upgrade_def run_live_checked run_live_unchecked log_info_def
      log_error_def log_def Let_def split: sum.splits)

lemma formula_step:
  assumes "run_capture w (brew @ '' list --formula'') = Inr out"
    and "to_install = filter (\<lambda>name. name \<notin> set (splitlines out)) formulae"
    and "to_install \<noteq> []"
  shows "install_formulae w brew formulae s =
     (Inr (),
      if succeeds w (brew @ '' install '' @ join to_install)
      then s\<lparr>result := (result s)\<lparr>success_install_formula :=
                        success_install_formula (result s) @ to_install\<rparr>,
            trace := trace s @
              [Log INFO (''Installing formulae: '' @ join to_install),
               Live (brew @ '' install '' @ join to_install)]\<rparr>
      else s\<lparr>result := (result s)\<lparr>error_install_formula :=
                        error_install_formula (result s) @ to_install\<rparr>,
            trace := trace s @
              [Log INFO (''Installing formulae: '' @ join to_install),
               Live (brew @ '' install '' @ join to_install),
               Log ERROR ''Failed to install one or more formulae.'']\<rparr>)"
  using assms
  by (simp add: install_formulae_def run_live_checked log_info_def log_error_def log_def Let_def
      split: sum.splits)

lemma formula_step_nothing:
  assumes "run_capture w (brew @ '' list --formula'') = Inr out"
    and "filter (\<lambda>name. name \<notin> set (splitlines out)) formulae = []"
  shows "install_formulae w brew formulae s = (Inr (), s)"
  using assms by (simp add: install_formulae_def)

lemma cask_step:
  assumes "filter_missing_casks_parallel w order brew casks s = (Inr to_install, s0)"
    and "to_install \<noteq> []"
  shows "install_casks w order brew casks s =
     (Inr (),
      if succeeds w (brew @ '' install --cask '' @ join to_install)
      then s0\<lparr>result := (result s0)\<lparr>success_install_cask :=
                        success_install_cask (result s0) @ to_install\<rparr>,
            trace := trace s0 @
              [Log INFO (''Installing casks: '' @ join to_install),
               Live (brew @ '' install --cask '' @ join to_install)]\<rparr>
      else s0\<lparr>result := (result s0)\<lparr>error_install_cask :=
                        error_install_cask (result s0) @ to_install\<rparr>,
            trace := trace s0 @
              [Log INFO (''Installing casks: '' @ join to_install),
               Live (brew @ '' install --cask '' @ join to_install),
               Log ERROR ''Failed to install one or more casks.'']\<rparr>)"
  using assms
  by (simp add: install_casks_def run_live_checked log_info_def log_error_def log_def Let_def
      split: sum.splits)

lemma filter_missing_no_live_calls:
  "live_calls (trace (snd (filter_missing_casks_parallel w order brew casks s))) = live_calls (trace s)"
proof (cases "casks = []")
  case True
  then show ?thesis
    by (simp add: filter_missing_casks_parallel_def ThreadPoolExecutor_def log_info_def log_def
        live_calls_append live_calls_simps)
next
  case False
  have "live_calls (map (\<lambda>(name, future). Log WARNING (''Failed to check cask: '' @ name)) fs) = []" for fs :: "(string \<times> (exn + bool)) list"
    by (induction fs) (auto simp: live_calls_simps)
  then show ?thesis
    by (simp add: filter_missing_trace [OF False] live_calls_append live_calls_simps)
qed

text \<open>
  C8. Each of the three mutating steps, when it has something to process, runs exactly
  one command for the whole subset (after \<^verbatim>\<open>brew update\<close> in the upgrade step) and
  returns normally; the exit status of that command alone decides the record: if it is 0
  the whole subset is appended to the success list of the step, otherwise the whole subset
  is appended to its error list, and the rest of the report is unchanged. (When the subset
  is empty the step runs no such command and records nothing.)
\<close>

theorem batched_step_all_or_nothing:
  "(live w (brew @ '' update'') = Inr rc \<and>
    run_capture w (brew @ '' outdated --formula --quiet'') = Inr out \<and>
    outdated = splitlines out \<and> outdated \<noteq> [] \<longrightarrow>
      (\<exists>s'. update_and_upgrade w brew s = (Inr (), s') \<and>
         live_calls (trace s') =
           live_calls (trace s) @ [brew @ '' update'', brew @ '' upgrade '' @ join outdated] \<and>
         result s' =
           (if succeeds w (brew @ '' upgrade '' @ join outdated)
            then (result s)\<lparr>success_upgrade_formula :=
                   success_upgrade_formula (result s) @ outdated\<rparr>
            else (result s)\<lparr>error_upgrade_formula :=
                   error_upgrade_formula (result s) @ outdated\<rparr>))) \<and>
   (run_capture w (brew @ '' list --formula'') = Inr listing \<and>
    missing = filter (\<lambda>name. name \<notin> set (splitlines listing)) formulae \<and> missing \<noteq> [] \<longrightarrow>
      (\<exists>s'. install_formulae w brew formulae s = (Inr (), s') \<and>
         live_calls (trace s') = live_calls (trace s) @ [brew @ '' install '' @ join missing] \<and>
         result s' =
           (if succeeds w (brew @ '' install '' @ join missing)
            then (result s)\<lparr>success_install_formula :=
                   success_install_formula (result s) @ missing\<rparr>
            else (result s)\<lparr>error_install_formula :=
                   error_install_formula (result s) @ missing\<rparr>))) \<and>
   (fst (filter_missing_casks_parallel w order brew casks s) = Inr to_install \<and>
    to_install \<noteq> [] \<longrightarrow>
      (\<exists>s'. install_casks w order brew casks s = (Inr (), s') \<and>
         live_calls (trace s') =
           live_calls (trace s) @ [brew @ '' install --cask '' @ join to_install] \<and>
         result s' =
           (if succeeds w (brew @ '' install --cask '' @ join to_install)
            then (result s)\<lparr>success_install_cask :=
                   success_install_cask (result s) @ to_install\<rparr>
            else (result s)\<lparr>error_install_cask :=
                   error_install_cask (result s) @ to_install\<rparr>)))"
proof (intro conjI impI)
  assume "live w (brew @ '' update'') = Inr rc \<and>
    run_capture w (brew @ '' outdated --formula --quiet'') = Inr out \<and>
    outdated = splitlines out \<and> outdated \<noteq> []"
  then have "live w (brew @ '' update'') = Inr rc"
    and "run_capture w (brew @ '' outdated --formula --quiet'') = Inr out"
    and "outdated = splitlines out" and "outdated \<noteq> []"
    by blast+
  from upgrade_step [OF this, of s]
  show "\<exists>s'. update_and_upgrade w brew s = (Inr (), s') \<and>
         live_calls (trace s') =
           live_calls (trace s) @ [brew @ '' update'', brew @ '' upgrade '' @ join outdated] \<and>
         result s' =
           (if succeeds w (brew @ '' upgrade '' @ join outdated)
            then (result s)\<lparr>success_upgrade_formula :=
                   success_upgrade_formula (result s) @ outdated\<rparr>
            else (result s)\<lparr>error_upgrade_formula :=
                   error_upgrade_formula (result s) @ outdated\<rparr>)"
    by (simp add: live_calls_append live_calls_simps)
next
  assume "run_capture w (brew @ '' list --formula'') = Inr listing \<and>
    missing = filter (\<lambda>name. name \<notin> set (splitlines listing)) formulae \<and> missing \<noteq> []"
  then have "run_capture w (brew @ '' list --formula'') = Inr listing"
    and "missing = filter (\<lambda>name. name \<notin> set (splitlines listing)) formulae"
    and "missing \<noteq> []"
    by blast+
  from formula_step [OF this, of s]
  show "\<exists>s'. install_formulae w brew formulae s = (Inr (), s') \<and>
         live_calls (trace s') = live_calls (trace s) @ [brew @ '' install '' @ join missing] \<and>
         result s' =
           (if succeeds w (brew @ '' install '' @ join missing)
            then (result s)\<lparr>success_install_formula :=
                   success_install_formula (result s) @ missing\<rparr>
            else (result s)\<lparr>error_install_formula :=
                   error_install_formula (result s) @ missing\<rparr>)"
    by (simp add: live_calls_append live_calls_simps)
next
  assume a: "fst (filter_missing_casks_parallel w order brew casks s) = Inr to_install \<and>
    to_install \<noteq> []"
  define s0 where "s0 = snd (filter_missing_casks_parallel w order brew casks s)"
  have run: "filter_missing_casks_parallel w order brew casks s = (Inr to_install, s0)"
    using a by (simp add: s0_def prod_eq_iff)
  have calls: "live_calls (trace s0) = live_calls (trace s)"
    unfolding s0_def by (rule filter_missing_no_live_calls)
  have res: "result s0 = result s"
    unfolding s0_def by (rule filter_missing_result)
  from a have "to_install \<noteq> []" by simp
  from cask_step [OF run this]
  show "\<exists>s'. install_casks w order brew casks s = (Inr (), s') \<and>
         live_calls (trace s') =
           live_calls (trace s) @ [brew @ '' install --cask '' @ join to_install] \<and>
         result s' =
           (if succeeds w (brew @ '' install --cask '' @ join to_install)
            then (result s)\<lparr>success_install_cask :=
                   success_install_cask (result s) @ to_install\<rparr>
            else (result s)\<lparr>error_install_cask :=
                   error_install_cask (result s) @ to_install\<rparr>)"
    by (simp add: live_calls_append live_calls_simps calls res)
qed

theorem batched_step_all_or_nothing_witness:
  "(\<exists>s'. update_and_upgrade mixed_world ''brew'' initial = (Inr (), s') \<and>
         live_calls (trace s') = [''brew update'', ''brew upgrade openssl node''] \<and>
         success_upgrade_formula (result s') = [''openssl'', ''node''] \<and>
         error_upgrade_formula (result s') = []) \<and>
   (\<exists>s'. install_formulae mixed_world ''brew'' [''git'', ''wget'', ''curl''] initial = (Inr (), s') \<and>
         live_calls (trace s') = [''brew install wget curl''] \<and>
         success_install_formula (result s') = [] \<and>
         error_install_formula (result s') = [''wget'', ''curl'']) \<and>
   (\<exists>s'. install_casks mixed_world [4, 2, 0, 3, 1] ''brew''
            [''firefox'', ''slack'', ''zoom'', ''iterm2'', ''vlc''] initial = (Inr (), s') \<and>
         live_calls (trace s') = [''brew install --cask vlc iterm2''] \<and>
         success_install_cask (result s') = [''vlc'', ''iterm2''] \<and>
         error_install_cask (result s') = [])"
proof -
  have h1: "live mixed_world (''brew'' @ '' update'') = Inr 0 \<and>
    run_capture mixed_world (''brew'' @ '' outdated --formula --quiet'') =
      Inr (''openssl'' @ [CHR 0x0A] @ ''node'' @ [CHR 0x0A]) \<and>
    [''openssl'', ''node''] = splitlines (''openssl'' @ [CHR 0x0A] @ ''node'' @ [CHR 0x0A]) \<and>
    [''openssl'', ''node''] \<noteq> []"
    by (simp add: mixed_world_def example_world_def run_capture_def splitlines_def is_linebreak_def)
  have h2: "run_capture mixed_world (''brew'' @ '' list --formula'') = Inr (''git'' @ [CHR 0x0A]) \<and>
    [''wget'', ''curl''] =
      filter (\<lambda>name. name \<notin> set (splitlines (''git'' @ [CHR 0x0A]))) [''git'', ''wget'', ''curl''] \<and>
    [''wget'', ''curl''] \<noteq> []"
    by (simp add: mixed_world_def example_world_def run_capture_def splitlines_def is_linebreak_def)
  have h3: "fst (filter_missing_casks_parallel mixed_world [4, 2, 0, 3, 1] ''brew''
      [''firefox'', ''slack'', ''zoom'', ''iterm2'', ''vlc''] initial) = Inr [''vlc'', ''iterm2''] \<and>
    [''vlc'', ''iterm2''] \<noteq> []"
    using mixed_world_filter by simp
  have s1: "succeeds mixed_world ''brew upgrade openssl node''"
    and s2: "\<not> succeeds mixed_world ''brew install wget curl''"
    and s3: "succeeds mixed_world ''brew install --cask vlc iterm2''"
    by (simp_all add: succeeds_def mixed_world_def example_world_def)
  note all = batched_step_all_or_nothing [of mixed_world "''brew''" 0
        "''openssl'' @ [CHR 0x0A] @ ''node'' @ [CHR 0x0A]" "[''openssl'', ''node'']" initial
        "''git'' @ [CHR 0x0A]" "[''wget'', ''curl'']" "[''git'', ''wget'', ''curl'']"
        "[4, 2, 0, 3, 1]" "[''firefox'', ''slack'', ''zoom'', ''iterm2'', ''vlc'']"
        "[''vlc'', ''iterm2'']"]
  note r1 = all [THEN conjunct1, THEN mp, OF h1]
  note r2 = all [THEN conjunct2, THEN conjunct1, THEN mp, OF h2]
  note r3 = all [THEN conjunct2, THEN conjunct2, THEN mp, OF h3]
  show ?thesis
    using r1 r2 r3 s1 s2 s3
    by (auto simp add: initial_def empty_report_def live_calls_simps)
qed

subsection \<open>Formulae\<close>

lemma install_formulae_depends_on_listing_only:
  assumes "capture w' (brew @ '' list --formula'') = capture w (brew @ '' list --formula'')"
    and "live w' = live w"
  shows "install_formulae w' brew formulae s = install_formulae w brew formulae s"
proof -
  have live: "run_live w' = run_live w"
    by (simp add: fun_eq_iff run_live_def assms(2))
  show ?thesis
    unfolding install_formulae_def run_capture_def assms(1) live by (rule refl)
qed


text \<open>
  C10. When the formula listing is obtained, the formulae that the install step attempts
  are those of the configuration that are not a line of the listing, in configuration
  order: they are the arguments of the one install command and the names appended to the
  success or the error list. The step reads nothing else of the world: in any world with
  the same listing and the same results of mutating commands it does the same, whatever
  the file system and the info texts say.
\<close>

theorem formulae_missing_from_listing_are_attempted:
  assumes "run_capture w (brew @ '' list --formula'') = Inr listing"
  shows "(let missing = filter (\<lambda>name. name \<notin> set (splitlines listing)) formulae in
          \<exists>s'. install_formulae w brew formulae s = (Inr (), s') \<and>
            live_calls (trace s') = live_calls (trace s) @
              (if missing = [] then [] else [brew @ '' install '' @ join missing]) \<and>
            (success_install_formula (result s') = success_install_formula (result s) @ missing \<and>
             error_install_formula (result s') = error_install_formula (result s) \<or>
             success_install_formula (result s') = success_install_formula (result s) \<and>
             error_install_formula (result s') = error_install_formula (result s) @ missing)) \<and>
         (\<forall>w'. capture w' (brew @ '' list --formula'') = capture w (brew @ '' list --formula'') \<and>
               live w' = live w \<longrightarrow>
               install_formulae w' brew formulae s = install_formulae w brew formulae s)"
proof (intro conjI allI impI)
  define missing where "missing = filter (\<lambda>name. name \<notin> set (splitlines listing)) formulae"
  have "\<exists>s'. install_formulae w brew formulae s = (Inr (), s') \<and>
            live_calls (trace s') = live_calls (trace s) @
              (if missing = [] then [] else [brew @ '' install '' @ join missing]) \<and>
            (success_install_formula (result s') = success_install_formula (result s) @ missing \<and>
             error_install_formula (result s') = error_install_formula (result s) \<or>
             success_install_formula (result s') = success_install_formula (result s) \<and>
             error_install_formula (result s') = error_install_formula (result s) @ missing)"
  proof (cases "missing = []")
    case True
    then show ?thesis
      using formula_step_nothing [OF assms, of formulae s] by (simp add: missing_def)
  next
    case False
    show ?thesis
      using formula_step [OF assms missing_def False, of s] False
      by (simp add: live_calls_append live_calls_simps)
  qed
  then show "let missing = filter (\<lambda>name. name \<notin> set (splitlines listing)) formulae in
          \<exists>s'. install_formulae w brew formulae s = (Inr (), s') \<and>
            live_calls (trace s') = live_calls (trace s) @
              (if missing = [] then [] else [brew @ '' install '' @ join missing]) \<and>
            (success_install_formula (result s') = success_install_formula (result s) @ missing \<and>
             error_install_formula (result s') = error_install_formula (result s) \<or>
             success_install_formula (result s') = success_install_formula (result s) \<and>
             error_install_formula (result s') = error_install_formula (result s) @ missing)"
    unfolding missing_def Let_def .
next
  fix w' :: world
  assume "capture w' (brew @ '' list --formula'') = capture w (brew @ '' list --formula'') \<and>
               live w' = live w"
  then show "install_formulae w' brew formulae s = install_formulae w brew formulae s"
    using install_formulae_depends_on_listing_only by blast
qed

theorem formulae_missing_from_listing_are_attempted_witness:
  "run_capture example_world (''brew'' @ '' list --formula'') =
     Inr (''git'' @ [CHR 0x0A] @ ''openssl'' @ [CHR 0x0A]) \<and>
   (\<exists>s'. install_formulae example_world ''brew'' [''wget'', ''git'', ''curl''] initial = (Inr (), s') \<and>
      live_calls (trace s') = [''brew install wget curl'']) \<and>
   install_formulae (example_world\<lparr>path_exists := \<lambda>p. True\<rparr>) ''brew'' [''wget'', ''git'', ''curl''] initial =
     install_formulae example_world ''brew'' [''wget'', ''git'', ''curl''] initial"
proof -
  have h: "run_capture example_world (''brew'' @ '' list --formula'') =
     Inr (''git'' @ [CHR 0x0A] @ ''openssl'' @ [CHR 0x0A])"
    by (simp add: example_world_def run_capture_def)
  note both = formulae_missing_from_listing_are_attempted [OF h, of "[''wget'', ''git'', ''curl'']" initial]
  have "\<exists>s'. install_formulae example_world ''brew'' [''wget'', ''git'', ''curl''] initial = (Inr (), s') \<and>
      live_calls (trace s') = [''brew install wget curl'']"
    using both [THEN conjunct1]
    by (auto simp add: Let_def splitlines_def is_linebreak_def initial_def live_calls_simps)
  moreover have "install_formulae (example_world\<lparr>path_exists := \<lambda>p. True\<rparr>) ''brew'' [''wget'', ''git'', ''curl''] initial =
     install_formulae example_world ''brew'' [''wget'', ''git'', ''curl''] initial"
    using both [THEN conjunct2, THEN spec, of "example_world\<lparr>path_exists := \<lambda>p. True\<rparr>"]
    by simp
  ultimately show ?thesis using h by blast
qed

subsection \<open>The caveat collector\<close>

lemma mset_concat_map_perm:
  assumes "mset xs = mset ys"
  shows "mset (concat (map g xs)) = mset (concat (map g ys))"
proof -
  have "mset (concat (map g zs)) = sum_mset (image_mset (\<lambda>z. mset (g z)) (mset zs))" for zs
    by (induction zs) simp_all
  then show ?thesis using assms by simp
qed

lemma get_caveat_returns:
  assumes "run_capture w (brew @ '' info '' @ (if is_cask then ''--cask'' else '''') @ '' --caveats '' @ name) = Inr out"
  shows "get_caveat w brew name is_cask =
           Inr (if strip out \<noteq> []
                then Some [(if is_cask then ''cask'' else ''formula'', name), (''caveat'', strip out)]
                else None)"
  using assms by (simp add: get_caveat_def Let_def)

text \<open>
  What the collector returns when the batch is not empty and every caveat query returns:
  one entry for each configured formula and cask whose query output is not empty after
  \<^verbatim>\<open>strip()\<close>, in completion order. \<open>stdout name is_cask\<close> stands for the output of
  the query for \<open>name\<close>.
\<close>

lemma collect_caveats_nonempty_subset:
  assumes "valid_order order (length formulae + length casks)"
    and "formulae \<noteq> [] \<or> casks \<noteq> []"
    and "\<forall>name \<in> set formulae.
           run_capture w (brew @ '' info  --caveats '' @ name) = Inr (stdout name False)"
    and "\<forall>name \<in> set casks.
           run_capture w (brew @ '' info --cask --caveats '' @ name) = Inr (stdout name True)"
  shows "\<exists>caveats s'.
           collect_caveats_parallel w order brew formulae casks s = (Inr caveats, s') \<and>
           mset caveats =
             mset (map (\<lambda>name. [(''formula'', name), (''caveat'', strip (stdout name False))])
                    (filter (\<lambda>name. strip (stdout name False) \<noteq> []) formulae)) +
             mset (map (\<lambda>name. [(''cask'', name), (''caveat'', strip (stdout name True))])
                    (filter (\<lambda>name. strip (stdout name True) \<noteq> []) casks))"
proof -
  let ?items = "map (\<lambda>name. (name, False)) formulae @ map (\<lambda>name. (name, True)) casks"
  let ?probe = "\<lambda>(name, is_cask). get_caveat w brew name is_cask"
  let ?futures = "map ?probe ?items"
  let ?found = "\<lambda>f. case f of Inr (Some res) \<Rightarrow> [res] | _ \<Rightarrow> []"
  let ?F = "map (\<lambda>name. [(''formula'', name), (''caveat'', strip (stdout name False))])
              (filter (\<lambda>name. strip (stdout name False) \<noteq> []) formulae)"
  let ?C = "map (\<lambda>name. [(''cask'', name), (''caveat'', strip (stdout name True))])
              (filter (\<lambda>name. strip (stdout name True) \<noteq> []) casks)"
  have f: "get_caveat w brew name False =
             Inr (if strip (stdout name False) \<noteq> []
                  then Some [(''formula'', name), (''caveat'', strip (stdout name False))] else None)"
    if "name \<in> set formulae" for name
    using assms(3) that get_caveat_returns [of w brew False name "stdout name False"] by simp
  have c: "get_caveat w brew name True =
             Inr (if strip (stdout name True) \<noteq> []
                  then Some [(''cask'', name), (''caveat'', strip (stdout name True))] else None)"
    if "name \<in> set casks" for name
    using assms(4) that get_caveat_returns [of w brew True name "stdout name True"] by simp
  have returned: "\<forall>fut \<in> set ?futures. \<not> isl fut"
    using f c by auto
  have "0 < length ?items"
    using assms(2) by auto
  then have pool: "ThreadPoolExecutor (min 8 (int (length ?items))) = Inr (min 8 (int (length ?items)))"
    by (rule pool_nonempty)
  have ord: "valid_order order (length ?futures)"
    using assms(1) by simp
  have "set (as_completed order ?futures) = set ?futures"
    using ord by (rule as_completed_set)
  with returned have "\<forall>fut \<in> set (as_completed order ?futures). \<not> isl fut"
    by simp
  then have loop: "collect_loop (as_completed order ?futures) [] =
      Inr (concat (map ?found (as_completed order ?futures)))"
    using collect_loop_returns [of "as_completed order ?futures" "[]"] by simp
  have "mset (concat (map ?found (as_completed order ?futures))) = mset (concat (map ?found ?futures))"
    using as_completed_mset [OF ord] by (rule mset_concat_map_perm)
  moreover have "concat (map ?found (map ?probe (map (\<lambda>name. (name, False)) formulae))) = ?F"
    using f by (induction formulae) auto
  moreover have "concat (map ?found (map ?probe (map (\<lambda>name. (name, True)) casks))) = ?C"
    using c by (induction casks) auto
  ultimately have "mset (concat (map ?found (as_completed order ?futures))) = mset ?F + mset ?C"
    by simp
  moreover have "collect_caveats_parallel w order brew formulae casks s =
      (Inr (concat (map ?found (as_completed order ?futures))),
       log_info ''Collecting caveats in parallel...'' s)"
    using pool loop by (simp add: collect_caveats_parallel_def Let_def)
  ultimately show ?thesis by blast
qed

text \<open>
  C7. The claim is that the caveat collector returns exactly the entries of the
  configured formulae and casks whose probe output is not empty after stripping white
  space. On a batch whose probes all return it does: \<^verbatim>\<open>git\<close> (output with surrounding
  white space) and the cask \<^verbatim>\<open>iterm2\<close> each give an entry with the stripped text,
  \<^verbatim>\<open>wget\<close> (white space only) gives none. When the probe of one more cask raises, the
  collector raises and returns none of these entries; with nothing configured it raises
  in the pool constructor instead of returning the empty list.
\<close>

theorem caveat_collector_returns_no_caveats:
  "get_caveat mixed_world ''brew'' ''git'' False =
     Inr (Some [(''formula'', ''git''), (''caveat'', ''Caveat: ...'')]) \<and>
   get_caveat mixed_world ''brew'' ''wget'' False = Inr None \<and>
   get_caveat mixed_world ''brew'' ''iterm2'' True =
     Inr (Some [(''cask'', ''iterm2''), (''caveat'', ''Needs Rosetta'')]) \<and>
   get_caveat mixed_world ''brew'' ''vlc'' True = Inl UnicodeDecodeError \<and>
   collect_caveats_parallel mixed_world [2, 0, 1] ''brew'' [''git'', ''wget''] [''iterm2''] initial =
     (Inr [[(''cask'', ''iterm2''), (''caveat'', ''Needs Rosetta'')],
           [(''formula'', ''git''), (''caveat'', ''Caveat: ...'')]],
      log_info ''Collecting caveats in parallel...'' initial) \<and>
   collect_caveats_parallel mixed_world [2, 0, 1, 3] ''brew'' [''git'', ''wget'']
       [''iterm2'', ''vlc''] initial =
     (Inl UnicodeDecodeError, log_info ''Collecting caveats in parallel...'' initial) \<and>
   collect_caveats_parallel mixed_world [] ''brew'' [] [] initial =
     (Inl (ValueError ''max_workers must be greater than 0''),
      log_info ''Collecting caveats in parallel...'' initial)"
  by (simp add: collect_caveats_parallel_def ThreadPoolExecutor_def as_completed_def
      get_caveat_def run_capture_def mixed_world_def example_world_def strip_def is_space_def)

subsection \<open>What a run prints\<close>

lemma printed_warnings:
  "printed (map (\<lambda>(name, future). Log l (msg name)) futures) = []"
  by (induction futures) (auto simp: printed_simps)

lemma update_and_upgrade_printed:
  "printed (trace (snd (update_and_upgrade w brew s))) = printed (trace s)"
  by (simp add: update_and_upgrade_def run_live_def log_info_def log_error_def log_def Let_def
      printed_append printed_simps split: sum.splits prod.splits)

lemma install_formulae_printed:
  "printed (trace (snd (install_formulae w brew formulae s))) = printed (trace s)"
  by (simp add: install_formulae_def run_live_def log_info_def log_error_def log_def Let_def
      printed_append printed_simps split: sum.splits prod.splits)

lemma filter_missing_printed:
  "printed (trace (snd (filter_missing_casks_parallel w order brew casks s))) = printed (trace s)"
proof (cases "casks = []")
  case True
  then show ?thesis
    by (simp add: filter_missing_casks_parallel_def ThreadPoolExecutor_def log_info_def log_def
        printed_append printed_simps)
next
  case False
  then show ?thesis
    by (simp add: filter_missing_trace printed_append printed_simps printed_warnings)
qed

lemma install_casks_printed:
  "printed (trace (snd (install_casks w order brew casks s))) = printed (trace s)"
proof -
  obtain r s0 where run: "filter_missing_casks_parallel w order brew casks s = (r, s0)"
    by (cases "filter_missing_casks_parallel w order brew casks s")
  then have "printed (trace s0) = printed (trace s)"
    using filter_missing_printed [of w order brew casks s] by simp
  then show ?thesis
    using run
    by (simp add: install_casks_def run_live_def log_info_def log_error_def log_def Let_def
        printed_append printed_simps split: sum.splits prod.splits)
qed

lemma collect_caveats_printed:
  "printed (trace (snd (collect_caveats_parallel w order brew formulae casks s))) = printed (trace s)"
  by (simp add: collect_caveats_parallel_def log_info_def log_def Let_def
      printed_append printed_simps split: sum.splits)

lemma print_result_aliases:
  "success_cask (result (print_result s)) = success_install_cask (result (print_result s))"
  "error_cask (result (print_result s)) = error_install_cask (result (print_result s))"
  "success_install_cask (result (print_result s)) = success_install_cask (result s)"
  "error_install_cask (result (print_result s)) = error_install_cask (result s)"
  "printed (trace (print_result s)) = printed (trace s) @ [result (print_result s)]"
  by (simp_all add: print_result_def log_info_def log_def Let_def printed_append printed_simps)

lemma install_casks_empty:
  "install_casks w order brew [] s =
     (Inl (ValueError ''max_workers must be greater than 0''),
      log_info ''Checking for installed casks in parallel...'' s)"
  by (simp add: install_casks_def filter_missing_casks_parallel_def ThreadPoolExecutor_def)

lemma sync_printed:
  "(\<exists>e s'. sync w brew formulae casks s = (Inl (Raised e), s') \<and>
       printed (trace s') = printed (trace s)) \<or>
   (\<exists>s'. sync w brew formulae casks s = (Inr (), s') \<and>
       printed (trace s') = printed (trace s) @ [result s'] \<and>
       success_cask (result s') = success_install_cask (result s') \<and>
       error_cask (result s') = error_install_cask (result s'))"
proof -
  obtain r1 s1 where 1: "update_and_upgrade w brew s = (r1, s1)"
    by (cases "update_and_upgrade w brew s")
  obtain r2 s2 where 2: "install_formulae w brew formulae s1 = (r2, s2)"
    by (cases "install_formulae w brew formulae s1")
  obtain r3 s3 where 3: "install_casks w (filter_order w) brew casks s2 = (r3, s3)"
    by (cases "install_casks w (filter_order w) brew casks s2")
  obtain r4 s4 where 4: "collect_caveats_parallel w (caveat_order w) brew formulae casks s3 = (r4, s4)"
    by (cases "collect_caveats_parallel w (caveat_order w) brew formulae casks s3")
  have p1: "printed (trace s1) = printed (trace s)"
    using update_and_upgrade_printed [of w brew s] 1 by simp
  have p2: "printed (trace s2) = printed (trace s)"
    using install_formulae_printed [of w brew formulae s1] 2 p1 by simp
  have p3: "printed (trace s3) = printed (trace s)"
    using install_casks_printed [of w "filter_order w" brew casks s2] 3 p2 by simp
  have p4: "printed (trace s4) = printed (trace s)"
    using collect_caveats_printed [of w "caveat_order w" brew formulae casks s3] 4 p3 by simp
  show ?thesis
    using 1 2 3 4 p1 p2 p3 p4
    by (cases r1; cases r2; cases r3; cases r4)
       (simp_all add: sync_def bind_def uncaught_def log_success_def log_def
          print_result_aliases printed_append printed_simps)
qed

lemma bind_cases:
  assumes "\<And>e s'. m = (Inl e, s') \<Longrightarrow> Q (Inl e, s')"
    and "\<And>x s'. m = (Inr x, s') \<Longrightarrow> Q (f x s')"
  shows "Q (bind m f)"
proof (cases m)
  case (Pair r s')
  then show ?thesis
    using assms by (cases r) (simp_all add: bind_def)
qed

lemma require_macos_printed:
  "printed (trace (snd (require_macos w s))) = printed (trace s)"
  by (simp add: require_macos_def log_error_def log_def printed_append printed_simps)

lemma parse_config_printed:
  "printed (trace (snd (parse_config w s))) = printed (trace s)"
  by (simp add: parse_config_def log_error_def log_def printed_append printed_simps
      split: option.splits sum.splits)

lemma brew_path_printed:
  "printed (trace (snd (brew_path w s))) = printed (trace s)"
  by (simp add: brew_path_def log_error_def log_def Let_def printed_append printed_simps
      split: option.splits)

lemma install_homebrew_printed:
  "printed (trace (snd (install_homebrew w s))) = printed (trace s)"
  by (simp add: install_homebrew_def run_live_def log_info_def log_def Let_def brew_path_printed
      printed_append printed_simps split: sum.splits prod.splits)

lemma main_printed:
  "printed (trace (snd (main w))) = [] \<or>
   (\<exists>r. printed (trace (snd (main w))) = [r] \<and>
        success_cask r = success_install_cask r \<and> error_cask r = error_install_cask r)"
  (is "?Q (main w)")
  unfolding main_def
proof (rule bind_cases)
  fix e s1 assume "require_macos w initial = (Inl e, s1)"
  then show "?Q (Inl e, s1)"
    using require_macos_printed [of w initial] by (simp add: initial_def printed_simps)
next
  fix u s1 assume "require_macos w initial = (Inr u, s1)"
  then have p1: "printed (trace s1) = []"
    using require_macos_printed [of w initial] by (simp add: initial_def printed_simps)
  show "?Q (bind (parse_config w (log_info ''Brew Sync Starting...'' s1)) (\<lambda>config s2.
     bind (assert_lists config ''formula'', s2) (\<lambda>_ s3.
     bind (assert_lists config ''cask'', s3) (\<lambda>_ s4.
       (let formulae = list_of (get_or_empty config ''formula'');
            casks = list_of (get_or_empty config ''cask'')
        in bind (brew_path w (s4\<lparr>result := empty_report\<rparr>)) (\<lambda>brew s5.
           bind (if brew = [] then install_homebrew w s5 else (Inr brew, s5)) (\<lambda>brew' s6.
             sync w brew' formulae casks s6)))))))"
  proof (rule bind_cases)
    fix e s2 assume "parse_config w (log_info ''Brew Sync Starting...'' s1) = (Inl e, s2)"
    then show "?Q (Inl e, s2)"
      using parse_config_printed [of w "log_info ''Brew Sync Starting...'' s1"] p1
      by (simp add: log_info_def log_def printed_append printed_simps)
  next
    fix config s2 assume "parse_config w (log_info ''Brew Sync Starting...'' s1) = (Inr config, s2)"
    then have p2: "printed (trace s2) = []"
      using parse_config_printed [of w "log_info ''Brew Sync Starting...'' s1"] p1
      by (simp add: log_info_def log_def printed_append printed_simps)
    show "?Q (bind (assert_lists config ''formula'', s2) (\<lambda>_ s3.
     bind (assert_lists config ''cask'', s3) (\<lambda>_ s4.
       (let formulae = list_of (get_or_empty config ''formula'');
            casks = list_of (get_or_empty config ''cask'')
        in bind (brew_path w (s4\<lparr>result := empty_report\<rparr>)) (\<lambda>brew s5.
           bind (if brew = [] then install_homebrew w s5 else (Inr brew, s5)) (\<lambda>brew' s6.
             sync w brew' formulae casks s6))))))"
    proof (rule bind_cases)
      fix e s3 assume "(assert_lists config ''formula'', s2) = (Inl e, s3)"
      then show "?Q (Inl e, s3)" using p2 by auto
    next
      fix u s3 assume "(assert_lists config ''formula'', s2) = (Inr u, s3)"
      then have p3: "printed (trace s3) = []" using p2 by auto
      show "?Q (bind (assert_lists config ''cask'', s3) (\<lambda>_ s4.
       (let formulae = list_of (get_or_empty config ''formula'');
            casks = list_of (get_or_empty config ''cask'')
        in bind (brew_path w (s4\<lparr>result := empty_report\<rparr>)) (\<lambda>brew s5.
           bind (if brew = [] then install_homebrew w s5 else (Inr brew, s5)) (\<lambda>brew' s6.
             sync w brew' formulae casks s6)))))"
      proof (rule bind_cases)
        fix e s4 assume "(assert_lists config ''cask'', s3) = (Inl e, s4)"
        then show "?Q (Inl e, s4)" using p3 by auto
      next
        fix u s4 assume "(assert_lists config ''cask'', s3) = (Inr u, s4)"
        then have p4: "printed (trace s4) = []" using p3 by auto
        show "?Q (let formulae = list_of (get_or_empty config ''formula'');
            casks = list_of (get_or_empty config ''cask'')
          in bind (brew_path w (s4\<lparr>result := empty_report\<rparr>)) (\<lambda>brew s5.
           bind (if brew = [] then install_homebrew w s5 else (Inr brew, s5)) (\<lambda>brew' s6.
             sync w brew' formulae casks s6)))"
          unfolding Let_def
        proof (rule bind_cases)
          fix e s5 assume "brew_path w (s4\<lparr>result := empty_report\<rparr>) = (Inl e, s5)"
          then show "?Q (Inl e, s5)"
            using brew_path_printed [of w "s4\<lparr>result := empty_report\<rparr>"] p4 by simp
        next
          fix brew s5 assume "brew_path w (s4\<lparr>result := empty_report\<rparr>) = (Inr brew, s5)"
          then have p5: "printed (trace s5) = []"
            using brew_path_printed [of w "s4\<lparr>result := empty_report\<rparr>"] p4 by simp
          show "?Q (bind (if brew = [] then install_homebrew w s5 else (Inr brew, s5)) (\<lambda>brew' s6.
             sync w brew' (list_of (get_or_empty config ''formula''))
               (list_of (get_or_empty config ''cask'')) s6))"
          proof (rule bind_cases)
            fix e s6 assume "(if brew = [] then install_homebrew w s5 else (Inr brew, s5)) = (Inl e, s6)"
            then show "?Q (Inl e, s6)"
              using install_homebrew_printed [of w s5] p5 by (auto split: if_splits)
          next
            fix brew' s6
            assume "(if brew = [] then install_homebrew w s5 else (Inr brew, s5)) = (Inr brew', s6)"
            then have p6: "printed (trace s6) = []"
              using install_homebrew_printed [of w s5] p5 by (auto split: if_splits)
            show "?Q (sync w brew' (list_of (get_or_empty config ''formula''))
               (list_of (get_or_empty config ''cask'')) s6)"
              using sync_printed [of w brew' "list_of (get_or_empty config ''formula'')"
                  "list_of (get_or_empty config ''cask'')" s6] p6
              by auto
          qed
        qed
      qed
    qed
  qed
qed

lemmas model_defs =
  main_def sync_def bind_def uncaught_def require_macos_def parse_config_def assert_lists_def
  get_or_empty_def brew_path_def truthy_def install_homebrew_def update_and_upgrade_def
  install_formulae_def install_casks_def filter_missing_casks_parallel_def
  collect_caveats_parallel_def get_caveat_def is_cask_installed_def print_result_def
  run_live_def run_capture_def log_info_def log_success_def log_error_def log_warning_def log_def
  ThreadPoolExecutor_def as_completed_def splitlines_def is_linebreak_def strip_def is_space_def
  initial_def empty_report_def Let_def

lemma main_example_world:
  "main example_world =
     (Inr (),
      \<lparr>result =
         \<lparr>success_install_formula = [], success_install_cask = [''iterm2''],
          success_upgrade_formula = [''openssl''], success_cask = [''iterm2''],
          error_install_formula = [''wget''], error_install_cask = [],
          error_upgrade_formula = [], error_cask = [],
          info = [[(''formula'', ''git''), (''caveat'', ''Caveat: ...'')]]\<rparr>,
       trace =
         [Log INFO ''Brew Sync Starting...'',
          Log INFO ''Updating Homebrew...'', Live ''brew update'',
          Log INFO ''Checking for outdated formulae...'',
          Log INFO ''Upgrading: openssl'', Live ''brew upgrade openssl'',
          Log INFO ''Installing formulae: wget'', Live ''brew install wget'',
          Log ERROR ''Failed to install one or more formulae.'',
          Log INFO ''Checking for installed casks in parallel...'',
          Log INFO ''Installing casks: iterm2'', Live ''brew install --cask iterm2'',
          Log INFO ''Collecting caveats in parallel...'',
          Log INFO ''Final result:'',
          Print
            \<lparr>success_install_formula = [], success_install_cask = [''iterm2''],
             success_upgrade_formula = [''openssl''], success_cask = [''iterm2''],
             error_install_formula = [''wget''], error_install_cask = [],
             error_upgrade_formula = [], error_cask = [],
             info = [[(''formula'', ''git''), (''caveat'', ''Caveat: ...'')]]\<rparr>,
          Log INFO ''Done!'']\<rparr>)"
  by (simp add: model_defs example_world_def)

lemma main_formula_only_world:
  "main formula_only_world =
     (Inl (Raised (ValueError ''max_workers must be greater than 0'')),
      \<lparr>result = empty_report\<lparr>success_upgrade_formula := [''openssl'']\<rparr>,
       trace =
         [Log INFO ''Brew Sync Starting...'',
          Log INFO ''Updating Homebrew...'', Live ''brew update'',
          Log INFO ''Checking for outdated formulae...'',
          Log INFO ''Upgrading: openssl'', Live ''brew upgrade openssl'',
          Log INFO ''Checking for installed casks in parallel...'']\<rparr>)"
  by (simp add: model_defs example_world_def formula_only_world_def)

text \<open>
  C6. \<^verbatim>\<open>print_result\<close> prints one report, the report it leaves in the state; in it
  \<^verbatim>\<open>success.cask\<close> equals \<^verbatim>\<open>success.install.cask\<close> and \<^verbatim>\<open>error.cask\<close> equals
  \<^verbatim>\<open>error.install.cask\<close>, and the two source lists are the ones recorded during the
  run. Every report that a run of \<^verbatim>\<open>main\<close> prints, in any world, has the two
  equalities.
\<close>

theorem printed_report_aliases_equal_sources:
  "(let r = result (print_result s) in
      printed (trace (print_result s)) = printed (trace s) @ [r] \<and>
      success_cask r = success_install_cask r \<and>
      error_cask r = error_install_cask r \<and>
      success_install_cask r = success_install_cask (result s) \<and>
      error_install_cask r = error_install_cask (result s)) \<and>
   (\<forall>r \<in> set (printed (trace (snd (main w)))).
      success_cask r = success_install_cask r \<and> error_cask r = error_install_cask r)"
proof
  show "let r = result (print_result s) in
      printed (trace (print_result s)) = printed (trace s) @ [r] \<and>
      success_cask r = success_install_cask r \<and>
      error_cask r = error_install_cask r \<and>
      success_install_cask r = success_install_cask (result s) \<and>
      error_install_cask r = error_install_cask (result s)"
    unfolding Let_def using print_result_aliases [of s] by blast
  show "\<forall>r \<in> set (printed (trace (snd (main w)))).
      success_cask r = success_install_cask r \<and> error_cask r = error_install_cask r"
    using main_printed [of w] by auto
qed

theorem printed_report_aliases_equal_sources_witness:
  "\<exists>r. printed (trace (snd (main example_world))) = [r] \<and>
       success_install_cask r = [''iterm2''] \<and> success_cask r = success_install_cask r \<and>
       error_install_cask r = [] \<and> error_cask r = error_install_cask r"
proof -
  have run: "printed (trace (snd (main example_world))) =
     [\<lparr>success_install_formula = [], success_install_cask = [''iterm2''],
       success_upgrade_formula = [''openssl''], success_cask = [''iterm2''],
       error_install_formula = [''wget''], error_install_cask = [],
       error_upgrade_formula = [], error_cask = [],
       info = [[(''formula'', ''git''), (''caveat'', ''Caveat: ...'')]]\<rparr>]"
    by (simp add: main_example_world printed_simps)
  show ?thesis
    using printed_report_aliases_equal_sources [of initial example_world, THEN conjunct2] run
    by simp
qed

subsection \<open>Runs that end without a report\<close>

lemma update_and_upgrade_returns:
  assumes "live w (brew @ '' update'') = Inr rc"
    and "run_capture w (brew @ '' outdated --formula --quiet'') = Inr out"
  shows "fst (update_and_upgrade w brew s) = Inr ()"
  using assms
  by (simp add: update_and_upgrade_def run_live_def Let_def split: sum.splits prod.splits)

lemma install_formulae_returns:
  assumes "run_capture w (brew @ '' list --formula'') = Inr listing"
  shows "fst (install_formulae w brew formulae s) = Inr ()"
  using assms
  by (simp add: install_formulae_def run_live_def Let_def split: sum.splits prod.splits)

lemma install_casks_returns:
  assumes "casks \<noteq> []"
  shows "fst (install_casks w order brew casks s) = Inr ()"
  by (simp add: install_casks_def filter_missing_unfold [OF assms] run_live_def Let_def
      split: sum.splits prod.splits)

lemma collect_caveats_all_returned:
  assumes "valid_order order (length formulae + length casks)"
    and "formulae \<noteq> [] \<or> casks \<noteq> []"
    and "\<forall>name \<in> set formulae. \<not> isl (get_caveat w brew name False)"
    and "\<forall>name \<in> set casks. \<not> isl (get_caveat w brew name True)"
  shows "\<exists>caveats. fst (collect_caveats_parallel w order brew formulae casks s) = Inr caveats"
proof -
  let ?items = "map (\<lambda>name. (name, False)) formulae @ map (\<lambda>name. (name, True)) casks"
  let ?futures = "map (\<lambda>(name, is_cask). get_caveat w brew name is_cask) ?items"
  have "0 < length ?items" using assms(2) by auto
  then have pool: "ThreadPoolExecutor (min 8 (int (length ?items))) = Inr (min 8 (int (length ?items)))"
    by (rule pool_nonempty)
  have "valid_order order (length ?futures)" using assms(1) by simp
  then have "set (as_completed order ?futures) = set ?futures"
    by (rule as_completed_set)
  moreover have "\<forall>fut \<in> set ?futures. \<not> isl fut"
    using assms(3,4) by auto
  ultimately have "\<forall>fut \<in> set (as_completed order ?futures). \<not> isl fut"
    by simp
  from collect_loop_returns [OF this, of "[]"] pool show ?thesis
    by (simp add: collect_caveats_parallel_def Let_def)
qed

text \<open>
  When the batches are not empty and the queries return, the run ends normally with one
  printed report, whatever the mutating commands for upgrade and installation return.
\<close>

lemma sync_survives_failed_mutations:
  assumes "casks \<noteq> []"
    and "valid_order (caveat_order w) (length formulae + length casks)"
    and "live w (brew @ '' update'') = Inr rc"
    and "run_capture w (brew @ '' outdated --formula --quiet'') = Inr out"
    and "run_capture w (brew @ '' list --formula'') = Inr listing"
    and "\<forall>name \<in> set formulae. \<not> isl (get_caveat w brew name False)"
    and "\<forall>name \<in> set casks. \<not> isl (get_caveat w brew name True)"
  shows "\<exists>s'. sync w brew formulae casks s = (Inr (), s') \<and>
           printed (trace s') = printed (trace s) @ [result s'] \<and>
           exit_status (fst (sync w brew formulae casks s)) = 0"
proof -
  obtain r1 s1 where 1: "update_and_upgrade w brew s = (r1, s1)"
    by (cases "update_and_upgrade w brew s")
  obtain r2 s2 where 2: "install_formulae w brew formulae s1 = (r2, s2)"
    by (cases "install_formulae w brew formulae s1")
  obtain r3 s3 where 3: "install_casks w (filter_order w) brew casks s2 = (r3, s3)"
    by (cases "install_casks w (filter_order w) brew casks s2")
  obtain r4 s4 where 4: "collect_caveats_parallel w (caveat_order w) brew formulae casks s3 = (r4, s4)"
    by (cases "collect_caveats_parallel w (caveat_order w) brew formulae casks s3")
  have "r1 = Inr ()"
    using update_and_upgrade_returns [OF assms(3,4), of s] 1 by simp
  moreover have "r2 = Inr ()"
    using install_formulae_returns [OF assms(5), of formulae s1] 2 by simp
  moreover have "r3 = Inr ()"
    using install_casks_returns [OF assms(1), of w "filter_order w" brew s2] 3 by simp
  moreover obtain caveats where "r4 = Inr caveats"
    using collect_caveats_all_returned [OF assms(2) _ assms(6,7), of s3] assms(1) 4 by auto
  ultimately have "fst (sync w brew formulae casks s) = Inr ()"
    using 1 2 3 4 by (simp add: sync_def bind_def uncaught_def)
  then show ?thesis
    using sync_printed [of w brew formulae casks s] by auto
qed

lemma sync_no_casks:
  "\<exists>e s'. sync w brew formulae [] s = (Inl (Raised e), s')"
proof -
  obtain r1 s1 where 1: "update_and_upgrade w brew s = (r1, s1)"
    by (cases "update_and_upgrade w brew s")
  obtain r2 s2 where 2: "install_formulae w brew formulae s1 = (r2, s2)"
    by (cases "install_formulae w brew formulae s1")
  show ?thesis
    using 1 2
    by (cases r1; cases r2) (simp_all add: sync_def bind_def uncaught_def install_casks_empty)
qed

text \<open>
  C9. The claim is that a failed install or upgrade call never ends the run and that
  every run that has read its configuration and found the tool prints the report and
  exits with status 0. The first part holds (\<open>sync_survives_failed_mutations\<close>).
  The second does not: when the configuration lists no cask, the steps after start-up
  never return normally and never print a report, in any world; the pool constructor of
  the missing-cask filter raises \<^verbatim>\<open>ValueError\<close> (unless an earlier query has raised
  already), nothing catches it, and the exit status is 1. The run of \<^verbatim>\<open>main\<close> on a
  configuration with one installed formula and no cask shows it.
\<close>

theorem run_without_casks_prints_no_report:
  "(\<exists>e s'. sync w brew formulae [] s = (Inl (Raised e), s') \<and>
       printed (trace s') = printed (trace s) \<and> exit_status (Inl (Raised e)) = 1) \<and>
   fst (main formula_only_world) = Inl (Raised (ValueError ''max_workers must be greater than 0'')) \<and>
   printed (trace (snd (main formula_only_world))) = [] \<and>
   exit_status (fst (main formula_only_world)) = 1"
proof (intro conjI)
  from sync_no_casks [of w brew formulae s] obtain e s' where
    run: "sync w brew formulae [] s = (Inl (Raised e), s')" by blast
  with sync_printed [of w brew formulae "[]" s] have "printed (trace s') = printed (trace s)"
    by simp
  with run show "\<exists>e s'. sync w brew formulae [] s = (Inl (Raised e), s') \<and>
       printed (trace s') = printed (trace s) \<and> exit_status (Inl (Raised e)) = 1"
    by simp
qed (simp_all add: main_formula_only_world printed_simps)

end
